theory Spec2Isabelle
  imports Main
begin

section \<open>Values\<close>

text \<open>
  The values that travel through the adapter are JavaScript values: decoded JSON bodies,
  query objects, regular-expression groups, procedure inputs and outputs, contexts.
  An object is the list of its own enumerable properties. Numbers are integers here
  (no claim depends on fractions).
\<close>

datatype json =
    JUndefined
  | JNull
  | JBool bool
  | JNumber int
  | JString string
  | JArray "json list"
  | JObject "(string \<times> json) list"

text \<open>\<^verbatim>\<open>Array.isArray(v)\<close>.\<close>

fun isArray :: "json \<Rightarrow> bool" where
  "isArray (JArray xs) = True"
| "isArray v = False"

text \<open>Decimal digits of an array index, the property name of an element.\<close>

fun index_key :: "nat \<Rightarrow> string" where
  "index_key n =
     (if n < 10 then [''0123456789'' ! n]
      else index_key (n div 10) @ [''0123456789'' ! (n mod 10)])"

text \<open>
  The own enumerable properties that an object spread \<^verbatim>\<open>{...v}\<close> copies:
  the properties of an object, the indexed elements of an array, the indexed characters
  of a string, and nothing for \<^verbatim>\<open>undefined\<close>, \<^verbatim>\<open>null\<close>,
  booleans and numbers.
\<close>

fun own_props :: "json \<Rightarrow> (string \<times> json) list" where
  "own_props (JObject kvs) = kvs"
| "own_props (JArray xs) = zip (map index_key [0..<length xs]) xs"
| "own_props (JString s) = zip (map index_key [0..<length s]) (map (\<lambda>c. JString [c]) s)"
| "own_props v = []"

text \<open>
  Setting a property: an existing property keeps its place and takes the new value, a new
  one goes last.
\<close>

fun obj_set :: "('k \<times> 'v) list \<Rightarrow> 'k \<Rightarrow> 'v \<Rightarrow> ('k \<times> 'v) list" where
  "obj_set [] k v = [(k, v)]"
| "obj_set ((k', v') # kvs) k v =
     (if k' = k then (k', v) # kvs else (k', v') # obj_set kvs k v)"

text \<open>The object literal \<^verbatim>\<open>{...a, ...b}\<close>: the properties of a, then those of b, set in turn.\<close>

definition spread :: "('k \<times> 'v) list \<Rightarrow> ('k \<times> 'v) list \<Rightarrow> ('k \<times> 'v) list" where
  "spread a b = foldl (\<lambda>obj (k, v). obj_set obj k v) [] (a @ b)"

text \<open>\<^verbatim>\<open>a || b || ... || d\<close> on optional strings: the first operand that is neither
  undefined nor empty, else the default.\<close>

fun first_truthy :: "string option list \<Rightarrow> string \<Rightarrow> string" where
  "first_truthy [] d = d"
| "first_truthy (None # rest) d = first_truthy rest d"
| "first_truthy (Some s # rest) d = (if s = [] then first_truthy rest d else s)"

section \<open>Errors\<close>

datatype TRPC_ERROR_CODE_KEY =
    PARSE_ERROR
  | BAD_REQUEST
  | NOT_FOUND
  | INTERNAL_SERVER_ERROR
  | UNAUTHORIZED
  | FORBIDDEN
  | TIMEOUT
  | CONFLICT
  | CLIENT_CLOSED_REQUEST
  | NOT_IMPLEMENTED
  | BAD_GATEWAY
  | SERVICE_UNAVAILABLE
  | GATEWAY_TIMEOUT
  | UNSUPPORTED_MEDIA_TYPE
  | METHOD_NOT_SUPPORTED
  | PRECONDITION_FAILED
  | PAYLOAD_TOO_LARGE
  | UNPROCESSABLE_CONTENT
  | TOO_MANY_REQUESTS

text \<open>The table \<^verbatim>\<open>TRPC_ERROR_CODE_HTTP_STATUS\<close>, in the order of the source.\<close>

fun TRPC_ERROR_CODE_HTTP_STATUS :: "TRPC_ERROR_CODE_KEY \<Rightarrow> nat" where
  "TRPC_ERROR_CODE_HTTP_STATUS PARSE_ERROR = 400"
| "TRPC_ERROR_CODE_HTTP_STATUS BAD_REQUEST = 400"
| "TRPC_ERROR_CODE_HTTP_STATUS NOT_FOUND = 404"
| "TRPC_ERROR_CODE_HTTP_STATUS INTERNAL_SERVER_ERROR = 500"
| "TRPC_ERROR_CODE_HTTP_STATUS UNAUTHORIZED = 401"
| "TRPC_ERROR_CODE_HTTP_STATUS FORBIDDEN = 403"
| "TRPC_ERROR_CODE_HTTP_STATUS TIMEOUT = 408"
| "TRPC_ERROR_CODE_HTTP_STATUS CONFLICT = 409"
| "TRPC_ERROR_CODE_HTTP_STATUS CLIENT_CLOSED_REQUEST = 499"
| "TRPC_ERROR_CODE_HTTP_STATUS NOT_IMPLEMENTED = 501"
| "TRPC_ERROR_CODE_HTTP_STATUS BAD_GATEWAY = 502"
| "TRPC_ERROR_CODE_HTTP_STATUS SERVICE_UNAVAILABLE = 503"
| "TRPC_ERROR_CODE_HTTP_STATUS GATEWAY_TIMEOUT = 504"
| "TRPC_ERROR_CODE_HTTP_STATUS UNSUPPORTED_MEDIA_TYPE = 415"
| "TRPC_ERROR_CODE_HTTP_STATUS METHOD_NOT_SUPPORTED = 405"
| "TRPC_ERROR_CODE_HTTP_STATUS PRECONDITION_FAILED = 412"
| "TRPC_ERROR_CODE_HTTP_STATUS PAYLOAD_TOO_LARGE = 413"
| "TRPC_ERROR_CODE_HTTP_STATUS UNPROCESSABLE_CONTENT = 422"
| "TRPC_ERROR_CODE_HTTP_STATUS TOO_MANY_REQUESTS = 429"

text \<open>
  The cause of an error, as far as the handler looks at it: whether it is an
  \<^verbatim>\<open>Error\<close>, its \<^verbatim>\<open>name\<close>, and its \<^verbatim>\<open>errors\<close>
  property (the issue list of a ZodError, \<^verbatim>\<open>undefined\<close> when there is none).
\<close>

record error_cause =
  cause_instanceofError :: bool
  cause_name :: string
  cause_errors :: json

record TRPCError =
  err_code :: TRPC_ERROR_CODE_KEY
  err_message :: string
  err_cause :: "error_cause option"

text \<open>
  What a \<^verbatim>\<open>catch\<close> can receive: an error named TRPCError; another
  \<^verbatim>\<open>Error\<close> with its message and, when it carries one of the known keys in a
  \<^verbatim>\<open>code\<close> property, that key; or any other value with such a key and the
  result of its \<^verbatim>\<open>toString()\<close>.
\<close>

datatype thrown =
    Thrown_TRPCError TRPCError
  | Thrown_Error string "TRPC_ERROR_CODE_KEY option"
  | Thrown_value "TRPC_ERROR_CODE_KEY option" "string option"

text \<open>
  \<^verbatim>\<open>getErrorFromUnknown\<close>, as the handlers import it: an error named TRPCError is
  returned as it is; every other value becomes a TRPCError with the known code it
  carries, else INTERNAL_SERVER_ERROR, and with its message, else the text of
  \<^verbatim>\<open>toString()\<close>, else "Unknown error occurred".
\<close>

fun getErrorFromUnknown :: "thrown \<Rightarrow> TRPCError" where
  "getErrorFromUnknown (Thrown_TRPCError e) = e"
| "getErrorFromUnknown (Thrown_Error msg c) =
     \<lparr>err_code = (case c of Some k \<Rightarrow> k | None \<Rightarrow> INTERNAL_SERVER_ERROR),
      err_message = msg, err_cause = None\<rparr>"
| "getErrorFromUnknown (Thrown_value c errorToString) =
     \<lparr>err_code = (case c of Some k \<Rightarrow> k | None \<Rightarrow> INTERNAL_SERVER_ERROR),
      err_message =
        (case errorToString of
           Some s \<Rightarrow> if s = [] then ''Unknown error occurred'' else s
         | None \<Rightarrow> ''Unknown error occurred''),
      err_cause = None\<rparr>"

text \<open>
  Modelled from the spec: \<^verbatim>\<open>getHTTPStatusCodeFromError\<close> is imported from the
  RPC framework and is not part of the sources. The specification gives the status of an
  error as the entry of the fixed table for its code, which is the table the repository
  declares as \<^verbatim>\<open>TRPC_ERROR_CODE_HTTP_STATUS\<close>.
\<close>

definition getHTTPStatusCodeFromError :: "TRPCError \<Rightarrow> nat option" where
  "getHTTPStatusCodeFromError error = Some (TRPC_ERROR_CODE_HTTP_STATUS (err_code error))"

section \<open>Procedures and the procedure cache\<close>

datatype OpenApiMethod = GET | POST | PATCH | PUT | DELETE

text \<open>The string a member of \<^verbatim>\<open>OpenApiMethod\<close> is.\<close>

fun method_string :: "OpenApiMethod \<Rightarrow> string" where
  "method_string GET = ''GET''"
| "method_string POST = ''POST''"
| "method_string PATCH = ''PATCH''"
| "method_string PUT = ''PUT''"
| "method_string DELETE = ''DELETE''"

datatype ProcedureType = Query | Mutation | Subscription

text \<open>
  The class of a procedure's unwrapped input schema, as the predicates
  \<^verbatim>\<open>instanceofZodTypeLikeVoid\<close>, \<^verbatim>\<open>instanceofZodTypeArray\<close> and
  \<^verbatim>\<open>instanceofZodTypeObject\<close> tell it.
\<close>

datatype zod_kind = ZodVoidLike | ZodArray | ZodObject | ZodOther

record openapi =
  openapi_enabled :: "bool option"
  openapi_method :: OpenApiMethod
  openapi_path :: string

text \<open>A procedure: \<^verbatim>\<open>_def.meta?.openapi\<close>, \<^verbatim>\<open>_def.type\<close> and the class of its
  input parser.\<close>

record procedure =
  proc_openapi :: "openapi option"
  proc_type :: "ProcedureType option"
  proc_input :: zod_kind

text \<open>The value the cache stores for a pattern: \<^verbatim>\<open>{type, path, procedure}\<close>.\<close>

record descriptor =
  d_type :: ProcedureType
  d_path :: string
  d_procedure :: procedure

text \<open>
  A \<^verbatim>\<open>RegExp\<close> object: its identity (a \<^verbatim>\<open>Map\<close> compares object keys by
  identity) and what \<^verbatim>\<open>exec\<close> answers on a path: no match, or the named groups
  of the match. \<^verbatim>\<open>test\<close> succeeds exactly when \<^verbatim>\<open>exec\<close> matches.
\<close>

type_synonym groups = "(string \<times> json) list"

record RegExp =
  re_id :: nat
  re_exec :: "string \<Rightarrow> groups option"

definition re_test :: "RegExp \<Rightarrow> string \<Rightarrow> bool" where
  "re_test re path = (re_exec re path \<noteq> None)"

text \<open>
  \<^verbatim>\<open>Map.prototype.set\<close>, \<^verbatim>\<open>get\<close> and \<^verbatim>\<open>has\<close> on a map kept in insertion
  order; \<open>ident\<close> gives what keys are compared by (the string itself, the identity of
  an object).
\<close>

fun Map_set :: "('k \<Rightarrow> 'i) \<Rightarrow> ('k \<times> 'v) list \<Rightarrow> 'k \<Rightarrow> 'v \<Rightarrow> ('k \<times> 'v) list" where
  "Map_set ident [] k v = [(k, v)]"
| "Map_set ident ((k', v') # m) k v =
     (if ident k' = ident k then (k', v) # m else (k', v') # Map_set ident m k v)"

fun Map_get :: "('k \<Rightarrow> 'i) \<Rightarrow> ('k \<times> 'v) list \<Rightarrow> 'k \<Rightarrow> 'v option" where
  "Map_get ident [] k = None"
| "Map_get ident ((k', v') # m) k = (if ident k' = ident k then Some v' else Map_get ident m k)"

definition Map_has :: "('k \<Rightarrow> 'i) \<Rightarrow> ('k \<times> 'v) list \<Rightarrow> 'k \<Rightarrow> bool" where
  "Map_has ident m k = (Map_get ident m k \<noteq> None)"

type_synonym method_cache = "(RegExp \<times> descriptor) list"
type_synonym procedure_cache = "(string \<times> method_cache) list"

text \<open>
  The path utilities are not part of the sources; the cache takes them as parameters:
  \<open>normalizePath\<close>, and \<open>getPathRegExp\<close> as the matching behaviour of the
  expression it compiles. Every call of \<^verbatim>\<open>getPathRegExp\<close> makes a new
  \<^verbatim>\<open>RegExp\<close> object; the cache's state counts the objects made so far and the
  count is the identity of the next one.
\<close>

record path_utils =
  normalizePath :: "string \<Rightarrow> string"
  getPathRegExp :: "string \<Rightarrow> string \<Rightarrow> groups option"

text \<open>The callback that \<^verbatim>\<open>createProcedureCache\<close> hands to
  \<^verbatim>\<open>forEachOpenApiProcedure\<close>, on the state (objects made, cache).\<close>

definition register :: "path_utils \<Rightarrow> nat \<times> procedure_cache \<Rightarrow> string \<Rightarrow> ProcedureType \<Rightarrow> procedure \<Rightarrow> openapi \<Rightarrow> nat \<times> procedure_cache" where
  "register u st queryPath ty proc oa =
     (let (fresh, procedureCache) = st;
          meth = method_string (openapi_method oa);
          procedureCache1 =
            (if \<not> Map_has id procedureCache meth then Map_set id procedureCache meth []
             else procedureCache);
          path = normalizePath u (openapi_path oa);
          pathRegExp = \<lparr>re_id = fresh, re_exec = getPathRegExp u path\<rparr>
      in if ty = Mutation \<or> ty = Query then
           (case Map_get id procedureCache1 meth of
              Some methodCache \<Rightarrow>
                (Suc fresh,
                 Map_set id procedureCache1 meth
                   (Map_set re_id methodCache pathRegExp
                      \<lparr>d_type = ty, d_path = queryPath, d_procedure = proc\<rparr>))
            | None \<Rightarrow> (Suc fresh, procedureCache1))
         else (Suc fresh, procedureCache1))"

text \<open>\<^verbatim>\<open>forEachOpenApiProcedure\<close> over the entries of the procedure record, in their
  order, threading the callback's state.\<close>

fun forEachOpenApiProcedure :: "(string \<times> procedure) list \<Rightarrow> ('s \<Rightarrow> string \<Rightarrow> ProcedureType \<Rightarrow> procedure \<Rightarrow> openapi \<Rightarrow> 's) \<Rightarrow> 's \<Rightarrow> 's" where
  "forEachOpenApiProcedure [] callback st = st"
| "forEachOpenApiProcedure ((path, proc) # rest) callback st =
     forEachOpenApiProcedure rest callback
       (case proc_openapi proc of
          Some oa \<Rightarrow>
            if openapi_enabled oa \<noteq> Some False then
              (case proc_type proc of
                 Some ty \<Rightarrow> callback st path ty proc oa
               | None \<Rightarrow> st)
            else st
        | None \<Rightarrow> st)"

definition createProcedureCache :: "path_utils \<Rightarrow> (string \<times> procedure) list \<Rightarrow> procedure_cache" where
  "createProcedureCache u procedures =
     snd (forEachOpenApiProcedure procedures (register u) (0, []))"

text \<open>The function \<^verbatim>\<open>createProcedureCache\<close> returns, on the cache it closes over.\<close>

definition getProcedure :: "procedure_cache \<Rightarrow> string \<Rightarrow> string \<Rightarrow> (descriptor \<times> groups) option" where
  "getProcedure procedureCache meth path =
     (case Map_get id procedureCache meth of
        None \<Rightarrow> None
      | Some procedureMethodCache \<Rightarrow>
          (case find (\<lambda>re. re_test re path) (map fst procedureMethodCache) of
             None \<Rightarrow> None
           | Some procedureRegExp \<Rightarrow>
               (case Map_get re_id procedureMethodCache procedureRegExp of
                  None \<Rightarrow> None
                | Some proc \<Rightarrow>
                    Some (proc, (case re_exec procedureRegExp path of Some g \<Rightarrow> g | None \<Rightarrow> [])))))"

section \<open>Requests, responses and options\<close>

text \<open>
  A request as the handler and its helpers read it: the method and the URL, the
  \<^verbatim>\<open>query\<close> and \<^verbatim>\<open>body\<close> properties when something has set them
  (the Lambda adapter's mock request does), the headers, and the bytes still unread on
  the stream of a native request. The handler never reads the stream itself; only
  \<^verbatim>\<open>getBody\<close> may.
\<close>

record request =
  req_method :: string
  req_url :: string
  req_query :: "json option"
  req_headers :: "(string \<times> string) list"
  req_body :: "json option"
  req_raw :: "string option"

record error_shape =
  shape_message :: "string option"

text \<open>The argument of \<^verbatim>\<open>responseMeta\<close> (a type of \<open>None\<close> is \<^verbatim>\<open>'unknown'\<close>) and
  its result.\<close>

record meta_args =
  ma_type :: "ProcedureType option"
  ma_paths :: "string option list option"
  ma_ctx :: json
  ma_data :: "json list"
  ma_errors :: "TRPCError list"

record response_meta =
  meta_status :: "nat option"
  meta_headers :: "(string \<times> string) list option"

text \<open>
  The router: the entries of \<^verbatim>\<open>_def.procedures\<close> in the order
  \<^verbatim>\<open>Object.entries\<close> lists them, the error formatter of its configuration, and
  \<^verbatim>\<open>createCaller\<close>, which for a context and a dotted path gives the procedure to
  call, if there is one. A call returns the procedure's output or throws.
\<close>

record router =
  router_procedures :: "(string \<times> procedure) list"
  router_errorFormatter :: "TRPCError \<Rightarrow> string option \<Rightarrow> error_shape option"
  router_createCaller :: "json \<Rightarrow> string \<Rightarrow> (json \<Rightarrow> thrown + json) option"

text \<open>
  The framework's \<^verbatim>\<open>getErrorShape\<close> passes the error to the error formatter of
  the router's configuration and returns the shape it answers.
\<close>

definition getErrorShape :: "router \<Rightarrow> TRPCError \<Rightarrow> string option \<Rightarrow> error_shape option" where
  "getErrorShape r error path = router_errorFormatter r error path"

text \<open>
  What the handlers call and the sources do not hold, taken as parameters: the path
  utilities; \<open>URL_pathname\<close>, the pathname of \<^verbatim>\<open>new URL(s)\<close> or \<open>None\<close> when
  the constructor throws; \<^verbatim>\<open>acceptsRequestBody\<close>; \<^verbatim>\<open>getBody\<close> and
  \<^verbatim>\<open>getQuery\<close>, which return a decoded value or throw;
  \<open>generateOpenApiDocument\<close>, the validation of the router when a handler is made
  (what it throws, \<open>None\<close> when it passes or is switched off in production);
  \<^verbatim>\<open>JSON.parse\<close> and \<^verbatim>\<open>querystring.parse\<close>, \<open>None\<close> when they throw.
\<close>

record env =
  env_paths :: path_utils
  URL_pathname :: "string \<Rightarrow> string option"
  acceptsRequestBody :: "string \<Rightarrow> bool"
  getBody :: "request \<Rightarrow> nat option \<Rightarrow> thrown + json"
  getQuery :: "request \<Rightarrow> string \<Rightarrow> thrown + json"
  generateOpenApiDocument :: "router \<Rightarrow> thrown option"
  JSON_parse :: "string \<Rightarrow> json option"
  querystring_parse :: "string \<Rightarrow> json option"

text \<open>\<^verbatim>\<open>CreateOpenApiNodeHttpHandlerOptions\<close>. The \<^verbatim>\<open>onError\<close> hook only observes;
  the error it is given is kept in the result of the handler instead.\<close>

record handler_opts =
  opts_router :: router
  opts_createContext :: "(request \<Rightarrow> thrown + json) option"
  opts_responseMeta :: "(meta_args \<Rightarrow> response_meta) option"
  opts_maxBodySize :: "nat option"

text \<open>\<^verbatim>\<open>OpenApiErrorResponse\<close>; issues that are \<^verbatim>\<open>undefined\<close> are absent from the
  serialised body.\<close>

record OpenApiErrorResponse =
  er_message :: string
  er_code :: TRPC_ERROR_CODE_KEY
  er_issues :: json

text \<open>The body handed to \<^verbatim>\<open>JSON.stringify\<close>: \<^verbatim>\<open>undefined\<close> (nothing is written),
  the output of a procedure, or an error response.\<close>

datatype resp_body = NoBody | SuccessBody json | ErrorBody OpenApiErrorResponse

record response =
  res_statusCode :: nat
  res_headers :: "(string \<times> string) list"
  res_body :: resp_body

text \<open>
  How a call of the handler ends: it called \<^verbatim>\<open>next\<close>, it sent a response, or its
  promise was rejected with a value thrown outside the \<^verbatim>\<open>try\<close>. The result also
  records the call of the procedure (its dotted path and the input passed), the error the
  \<^verbatim>\<open>catch\<close> clause handled (the one \<^verbatim>\<open>onError\<close> is told), and what
  \<^verbatim>\<open>responseMeta\<close> answered.
\<close>

datatype outcome = CalledNext | Sent response | Rejected thrown

record handler_result =
  hr_outcome :: outcome
  hr_invoked :: "(string \<times> json) option"
  hr_error :: "TRPCError option"
  hr_meta :: "response_meta option"

section \<open>The node-http handler\<close>

text \<open>\<^verbatim>\<open>sendResponse\<close>: the status, the headers in the order they are set, the body.\<close>

definition sendResponse :: "nat \<Rightarrow> (string \<times> string) list \<Rightarrow> resp_body \<Rightarrow> response" where
  "sendResponse statusCode headers body =
     \<lparr>res_statusCode = statusCode,
      res_headers = (''Content-Type'', ''application/json'') # headers,
      res_body = body\<rparr>"

text \<open>\<^verbatim>\<open>headersToRecord\<close> on a plain header object.\<close>

definition headersToRecord :: "(string \<times> string) list \<Rightarrow> (string \<times> string) list" where
  "headersToRecord headers = spread [] headers"

definition isInputValidationError :: "TRPCError \<Rightarrow> bool" where
  "isInputValidationError error =
     (err_code error = BAD_REQUEST \<and>
      (case err_cause error of
         Some c \<Rightarrow> cause_instanceofError c \<and> cause_name c = ''ZodError''
       | None \<Rightarrow> False))"

text \<open>\<^verbatim>\<open>meta?.status ?? getHTTPStatusCodeFromError(error) ?? 500\<close>.\<close>

definition error_statusCode :: "response_meta option \<Rightarrow> TRPCError \<Rightarrow> nat" where
  "error_statusCode meta error =
     (case Option.bind meta meta_status of
        Some s \<Rightarrow> s
      | None \<Rightarrow> (case getHTTPStatusCodeFromError error of Some s \<Rightarrow> s | None \<Rightarrow> 500))"

text \<open>\<^verbatim>\<open>meta?.headers ?? {}\<close>.\<close>

definition meta_headers_or_empty :: "response_meta option \<Rightarrow> (string \<times> string) list" where
  "meta_headers_or_empty meta =
     (case Option.bind meta meta_headers of Some h \<Rightarrow> h | None \<Rightarrow> [])"

text \<open>
  The \<^verbatim>\<open>catch\<close> clause of the handler, for the value thrown, with the procedure
  found (if any), the context made so far and the call of the procedure made so far.
\<close>

definition catch_clause :: "handler_opts \<Rightarrow> string \<Rightarrow> descriptor option \<Rightarrow> json \<Rightarrow> (string \<times> json) option \<Rightarrow> thrown \<Rightarrow> handler_result" where
  "catch_clause opts path proc ctx invoked cause =
     (let error = getErrorFromUnknown cause;
          meta = map_option (\<lambda>responseMeta. responseMeta
                   \<lparr>ma_type = map_option d_type proc,
                    ma_paths = (case proc of
                                  Some d \<Rightarrow> if d_path d = [] then None else Some [Some (d_path d)]
                                | None \<Rightarrow> None),
                    ma_ctx = ctx, ma_data = [JUndefined], ma_errors = [error]\<rparr>)
                 (opts_responseMeta opts);
          errorShape = (case getErrorShape (opts_router opts) error (Some path) of
                          Some shape \<Rightarrow> shape
                        | None \<Rightarrow> \<lparr>shape_message = Some (err_message error)\<rparr>);
          statusCode = error_statusCode meta error;
          headers = meta_headers_or_empty meta;
          body = \<lparr>er_message =
                    (if isInputValidationError error then ''Input validation failed''
                     else (case shape_message errorShape of
                             Some m \<Rightarrow> m
                           | None \<Rightarrow> err_message error)),
                  er_code = err_code error,
                  er_issues =
                    (if isInputValidationError error
                     then (case err_cause error of Some c \<Rightarrow> cause_errors c | None \<Rightarrow> JUndefined)
                     else JUndefined)\<rparr>
      in \<lparr>hr_outcome = Sent (sendResponse statusCode (headersToRecord headers) (ErrorBody body)),
          hr_invoked = invoked, hr_error = Some error, hr_meta = meta\<rparr>)"

text \<open>
  The value read for a procedure that takes input: the body when the method accepts one,
  else the query.
\<close>

definition bodyOrQuery :: "env \<Rightarrow> handler_opts \<Rightarrow> request \<Rightarrow> string \<Rightarrow> thrown + json" where
  "bodyOrQuery e opts req url =
     (if acceptsRequestBody e (req_method req) then getBody e req (opts_maxBodySize opts)
      else getQuery e req url)"

text \<open>
  The input for the procedure, from the class of its input schema, the path parameters
  and the request: \<^verbatim>\<open>undefined\<close> for a schema like void; the array read, or a
  BAD_REQUEST when what was read is no array; for every other schema the object
  \<^verbatim>\<open>{...bodyOrQuery, ...pathInput}\<close>.
\<close>

definition reconcileInput :: "env \<Rightarrow> handler_opts \<Rightarrow> request \<Rightarrow> string \<Rightarrow> zod_kind \<Rightarrow> groups \<Rightarrow> thrown + json" where
  "reconcileInput e opts req url unwrappedSchema pathInput =
     (if unwrappedSchema \<noteq> ZodVoidLike then
        (case bodyOrQuery e opts req url of
           Inl cause \<Rightarrow> Inl cause
         | Inr v \<Rightarrow>
             if unwrappedSchema = ZodArray then
               (if \<not> isArray v then
                  Inl (Thrown_TRPCError
                        \<lparr>err_code = BAD_REQUEST,
                         err_message = ''Expected array in request body'',
                         err_cause = None\<rparr>)
                else Inr v)
             else Inr (JObject (spread (own_props v) pathInput)))
      else Inr JUndefined)"

text \<open>The argument the handler gives to \<^verbatim>\<open>new URL\<close>: a request URL that starts
  with a slash is put behind \<^verbatim>\<open>http://127.0.0.1\<close>.\<close>

definition handler_url :: "request \<Rightarrow> string" where
  "handler_url req =
     (let reqUrl = req_url req
      in if take 1 reqUrl = ''/'' then ''http://127.0.0.1'' @ reqUrl else reqUrl)"

text \<open>The lookup of the handler, \<^verbatim>\<open>getProcedure(method, path)\<close>, for the pathname of
  the URL: the cache is the one made from the router when the handler was created.\<close>

definition handler_lookup :: "env \<Rightarrow> handler_opts \<Rightarrow> request \<Rightarrow> string \<Rightarrow> (descriptor \<times> groups) option" where
  "handler_lookup e opts req pathname =
     getProcedure
       (createProcedureCache (env_paths e) (router_procedures (opts_router opts)))
       (req_method req) (normalizePath (env_paths e) pathname)"

text \<open>\<^verbatim>\<open>await createContext?.({req, res, info})\<close>: the context, \<^verbatim>\<open>undefined\<close>
  when no factory is configured, or what the factory throws.\<close>

definition handler_context :: "handler_opts \<Rightarrow> request \<Rightarrow> thrown + json" where
  "handler_context opts req =
     (case opts_createContext opts of
        None \<Rightarrow> Inr JUndefined
      | Some createContext \<Rightarrow> createContext req)"

text \<open>
  The function \<^verbatim>\<open>createOpenApiNodeHttpHandler\<close> returns, for a request and whether a
  \<^verbatim>\<open>next\<close> callback was passed. The URL is parsed and the procedure looked up before
  the \<^verbatim>\<open>try\<close>; every throw inside it ends in the \<^verbatim>\<open>catch\<close> clause. The hooks
  \<^verbatim>\<open>responseMeta\<close> and \<^verbatim>\<open>onError\<close> are taken to return normally. The marking of
  schemas for coercion changes no value of the handler and is left to the procedure's own
  validation.
\<close>

definition openApiHttpHandler :: "env \<Rightarrow> handler_opts \<Rightarrow> request \<Rightarrow> bool \<Rightarrow> handler_result" where
  "openApiHttpHandler e opts req next =
     (let url = handler_url req
      in case URL_pathname e url of
           None \<Rightarrow>
             \<lparr>hr_outcome = Rejected (Thrown_Error ''Invalid URL'' None),
              hr_invoked = None, hr_error = None, hr_meta = None\<rparr>
         | Some pathname \<Rightarrow>
            (let path = normalizePath (env_paths e) pathname
             in case handler_lookup e opts req pathname of
                  None \<Rightarrow>
                    if next then
                      \<lparr>hr_outcome = CalledNext, hr_invoked = None, hr_error = None, hr_meta = None\<rparr>
                    else if req_method req = ''HEAD'' then
                      \<lparr>hr_outcome = Sent (sendResponse 204 [] NoBody),
                       hr_invoked = None, hr_error = None, hr_meta = None\<rparr>
                    else
                      catch_clause opts path None JUndefined None
                        (Thrown_TRPCError
                          \<lparr>err_code = NOT_FOUND, err_message = ''Not found'', err_cause = None\<rparr>)
                | Some (procedure, pathInput) \<Rightarrow>
                   (case reconcileInput e opts req url (proc_input (d_procedure procedure)) pathInput of
                      Inl cause \<Rightarrow> catch_clause opts path (Some procedure) JUndefined None cause
                    | Inr input \<Rightarrow>
                       (case handler_context opts req of
                          Inl cause \<Rightarrow> catch_clause opts path (Some procedure) JUndefined None cause
                        | Inr ctx \<Rightarrow>
                           (case router_createCaller (opts_router opts) ctx (d_path procedure) of
                              None \<Rightarrow>
                                catch_clause opts path (Some procedure) ctx None
                                  (Thrown_TRPCError
                                    \<lparr>err_code = INTERNAL_SERVER_ERROR,
                                     err_message = ''Procedure not found'',
                                     err_cause = None\<rparr>)
                            | Some procedureFn \<Rightarrow>
                               (case procedureFn input of
                                  Inl cause \<Rightarrow>
                                    catch_clause opts path (Some procedure) ctx
                                      (Some (d_path procedure, input)) cause
                                | Inr data \<Rightarrow>
                                   (let meta = map_option (\<lambda>responseMeta. responseMeta
                                                 \<lparr>ma_type = Some (d_type procedure),
                                                  ma_paths = Some [Some (d_path procedure)],
                                                  ma_ctx = ctx, ma_data = [data], ma_errors = []\<rparr>)
                                               (opts_responseMeta opts);
                                        statusCode = (case Option.bind meta meta_status of
                                                        Some s \<Rightarrow> s | None \<Rightarrow> 200);
                                        headers = meta_headers_or_empty meta
                                    in \<lparr>hr_outcome =
                                          Sent (sendResponse statusCode (headersToRecord headers)
                                                  (SuccessBody data)),
                                        hr_invoked = Some (d_path procedure, input),
                                        hr_error = None, hr_meta = meta\<rparr>)))))))"

text \<open>\<^verbatim>\<open>createOpenApiNodeHttpHandler\<close>: the router is validated, then the handler is
  returned.\<close>

definition createOpenApiNodeHttpHandler :: "env \<Rightarrow> handler_opts \<Rightarrow> thrown + (request \<Rightarrow> bool \<Rightarrow> handler_result)" where
  "createOpenApiNodeHttpHandler e opts =
     (case generateOpenApiDocument e (opts_router opts) of
        Some cause \<Rightarrow> Inl cause
      | None \<Rightarrow> Inr (openApiHttpHandler e opts))"

section \<open>The AWS Lambda handler\<close>

text \<open>
  A gateway event, as the adapter reads it: \<^verbatim>\<open>version\<close>; \<^verbatim>\<open>path\<close> and
  \<^verbatim>\<open>httpMethod\<close> (format 1.0); \<^verbatim>\<open>rawPath\<close> and
  \<^verbatim>\<open>requestContext.http.method\<close> (format 2.0: \<open>None\<close> when
  \<^verbatim>\<open>requestContext.http\<close> is not there, so that reading its method throws, else the
  method it holds, if any); the headers (\<open>None\<close> when the event has none, so that
  listing their keys throws); the body and the query parameters.
\<close>

record event =
  ev_version :: "string option"
  ev_path :: "string option"
  ev_rawPath :: "string option"
  ev_httpMethod :: "string option"
  ev_requestContext_http_method :: "string option option"
  ev_headers :: "(string \<times> string) list option"
  ev_body :: "string option"
  ev_queryStringParameters :: "json option"

text \<open>
  The options object of the Lambda handler: the router, \<^verbatim>\<open>createContext\<close> and
  \<^verbatim>\<open>responseMeta\<close> that \<^verbatim>\<open>CreateOpenApiAwsLambdaHandlerOptions\<close> declares
  (\<^verbatim>\<open>onError\<close> only observes), and the \<^verbatim>\<open>maxBodySize\<close> the object may carry
  beside them. The type does not declare that property, but the handler spreads the whole
  object, cast to \<^verbatim>\<open>any\<close>, into the options of the node-http handler, which reads it.
\<close>

record lambda_opts =
  l_router :: router
  l_createContext :: "(event \<Rightarrow> thrown + json) option"
  l_responseMeta :: "(meta_args \<Rightarrow> response_meta) option"
  l_maxBodySize :: "nat option"

definition determinePayloadFormat :: "event \<Rightarrow> string" where
  "determinePayloadFormat event =
     (case ev_version event of None \<Rightarrow> ''1.0'' | Some version \<Rightarrow> version)"

text \<open>\<^verbatim>\<open>toLowerCase\<close> and \<^verbatim>\<open>toUpperCase\<close> on the letters of ASCII, which are the
  letters of header names and methods.\<close>

definition toLowerCase :: "string \<Rightarrow> string" where
  "toLowerCase s =
     map (\<lambda>c. case map_of (zip ''ABCDEFGHIJKLMNOPQRSTUVWXYZ'' ''abcdefghijklmnopqrstuvwxyz'') c of
                 Some l \<Rightarrow> l | None \<Rightarrow> c) s"

definition toUpperCase :: "string \<Rightarrow> string" where
  "toUpperCase s =
     map (\<lambda>c. case map_of (zip ''abcdefghijklmnopqrstuvwxyz'' ''ABCDEFGHIJKLMNOPQRSTUVWXYZ'') c of
                 Some l \<Rightarrow> l | None \<Rightarrow> c) s"

text \<open>The TypeError of the engine for a property read on \<^verbatim>\<open>undefined\<close> (its message
  is the engine's and is shortened here).\<close>

definition TypeError :: thrown where
  "TypeError = Thrown_Error ''Cannot read properties of undefined'' None"

definition parse_failure :: "string \<Rightarrow> thrown" where
  "parse_failure causeName =
     Thrown_TRPCError
       \<lparr>err_code = PARSE_ERROR, err_message = ''Failed to parse request body'',
        err_cause = Some \<lparr>cause_instanceofError = True, cause_name = causeName,
                          cause_errors = JUndefined\<rparr>\<rparr>"

text \<open>
  \<^verbatim>\<open>createMockNodeHTTPRequest\<close>: the URL; the method in upper case
  (\<open>event_method\<close>); the content type under the first header name that is
  \<^verbatim>\<open>content-type\<close> in lower case, else under the empty name
  (\<open>header_contentType\<close>); the body decoded by that content type when it is not empty;
  and the mock request made of them.
\<close>

definition event_method :: "event \<Rightarrow> thrown + string" where
  "event_method event =
     (if first_truthy [ev_httpMethod event] [] \<noteq> []
      then Inr (toUpperCase (first_truthy [ev_httpMethod event] []))
      else (case ev_requestContext_http_method event of
              None \<Rightarrow> Inl TypeError
            | Some m \<Rightarrow> Inr (toUpperCase (first_truthy [m] ''GET''))))"

definition header_contentType :: "(string \<times> string) list \<Rightarrow> string option" where
  "header_contentType headers =
     map_of headers
       (case find (\<lambda>key. toLowerCase key = ''content-type'') (map fst headers) of
          Some key \<Rightarrow> key
        | None \<Rightarrow> [])"

definition createMockNodeHTTPRequest :: "env \<Rightarrow> string \<Rightarrow> event \<Rightarrow> thrown + request" where
  "createMockNodeHTTPRequest e path event =
     (let url = first_truthy [ev_path event, ev_rawPath event] ''/''
      in case event_method event of
           Inl cause \<Rightarrow> Inl cause
         | Inr meth \<Rightarrow>
            (case ev_headers event of
               None \<Rightarrow> Inl TypeError
             | Some headers \<Rightarrow>
                (let contentType = header_contentType headers
                 in case (if contentType = Some ''application/json'' then
                            (case first_truthy [ev_body event] [] of
                               [] \<Rightarrow> Inr None
                             | b # bs \<Rightarrow>
                                 (case JSON_parse e (b # bs) of
                                    Some v \<Rightarrow> Inr (Some v)
                                  | None \<Rightarrow> Inl (parse_failure ''SyntaxError'')))
                          else if contentType = Some ''application/x-www-form-urlencoded'' then
                            (case first_truthy [ev_body event] [] of
                               [] \<Rightarrow> Inr None
                             | b # bs \<Rightarrow>
                                 (case querystring_parse e (b # bs) of
                                    Some v \<Rightarrow> Inr (Some v)
                                  | None \<Rightarrow> Inl (parse_failure ''Error'')))
                          else Inr None) of
                      Inl cause \<Rightarrow> Inl cause
                    | Inr body \<Rightarrow>
                        Inr \<lparr>req_method = meth, req_url = url,
                             req_query = ev_queryStringParameters event,
                             req_headers = headers, req_body = body, req_raw = None\<rparr>)))"

text \<open>The \<^verbatim>\<open>catch\<close> clause of the Lambda handler, for the path known so far and the
  value thrown.\<close>

definition lambda_catch_clause :: "lambda_opts \<Rightarrow> string option \<Rightarrow> thrown \<Rightarrow> handler_result" where
  "lambda_catch_clause opts path cause =
     (let error = getErrorFromUnknown cause;
          meta = map_option (\<lambda>responseMeta. responseMeta
                   \<lparr>ma_type = None, ma_paths = Some [path], ma_ctx = JUndefined,
                    ma_data = [JUndefined], ma_errors = [error]\<rparr>)
                 (l_responseMeta opts);
          errorShape = getErrorShape (l_router opts) error path;
          statusCode = error_statusCode meta error;
          headers = spread [(''content-type'', ''application/json'')] (meta_headers_or_empty meta);
          body = \<lparr>er_message =
                    (case Option.bind errorShape shape_message of
                       Some m \<Rightarrow> m
                     | None \<Rightarrow> err_message error),
                  er_code = err_code error,
                  er_issues = JUndefined\<rparr>
      in \<lparr>hr_outcome = Sent \<lparr>res_statusCode = statusCode, res_headers = headers,
                              res_body = ErrorBody body\<rparr>,
          hr_invoked = None, hr_error = Some error, hr_meta = meta\<rparr>)"

text \<open>
  The options the Lambda handler makes the node-http handler with,
  \<^verbatim>\<open>{...opts, createContext}\<close>: every property of its own options object, a
  \<^verbatim>\<open>maxBodySize\<close> among them when the object carries one, and a
  \<^verbatim>\<open>createContext\<close> that hands the event to the configured one.
\<close>

definition lambda_handler_opts :: "lambda_opts \<Rightarrow> event \<Rightarrow> handler_opts" where
  "lambda_handler_opts opts event =
     \<lparr>opts_router = l_router opts,
      opts_createContext =
        Some (\<lambda>req. case l_createContext opts of
                     None \<Rightarrow> Inr JUndefined
                   | Some createContext \<Rightarrow> createContext event),
      opts_responseMeta = l_responseMeta opts,
      opts_maxBodySize = l_maxBodySize opts\<rparr>"

text \<open>
  The function \<^verbatim>\<open>createOpenApiAwsLambdaHandler\<close> returns. The node-http handler is
  called without \<^verbatim>\<open>next\<close>, and what it sent to the mock response is returned (a
  mock response nothing was sent to has status 200 and no body).
\<close>

definition createOpenApiAwsLambdaHandler :: "env \<Rightarrow> lambda_opts \<Rightarrow> event \<Rightarrow> handler_result" where
  "createOpenApiAwsLambdaHandler e opts event =
     (let version = determinePayloadFormat event
      in if version \<noteq> ''1.0'' \<and> version \<noteq> ''2.0'' then
           lambda_catch_clause opts None
             (Thrown_TRPCError
               \<lparr>err_code = INTERNAL_SERVER_ERROR,
                err_message = ''Unsupported payload format version: '' @ version,
                err_cause = None\<rparr>)
         else
           (case createOpenApiNodeHttpHandler e (lambda_handler_opts opts event) of
              Inl cause \<Rightarrow> lambda_catch_clause opts None cause
            | Inr handler \<Rightarrow>
               (let path = first_truthy [ev_path event, ev_rawPath event] ''/''
                in case createMockNodeHTTPRequest e path event of
                     Inl cause \<Rightarrow> lambda_catch_clause opts (Some path) cause
                   | Inr req \<Rightarrow>
                      (let r = handler req False
                       in case hr_outcome r of
                            Sent res \<Rightarrow> r
                          | Rejected cause \<Rightarrow>
                              (lambda_catch_clause opts (Some path) cause)
                                \<lparr>hr_invoked := hr_invoked r\<rparr>
                          | CalledNext \<Rightarrow>
                              r\<lparr>hr_outcome :=
                                  Sent \<lparr>res_statusCode = 200, res_headers = [],
                                        res_body = NoBody\<rparr>\<rparr>))))"

section \<open>The body decoder\<close>

text \<open>
  Modelled from the spec: the body decoder, the \<^verbatim>\<open>getBody\<close> of the node-http input
  helpers, which the sources do not hold. In the words of the specification
  (\<^verbatim>\<open>decode(raw, contentType, maxSize)\<close>): no body gives \<^verbatim>\<open>undefined\<close>; the
  maximum size is enforced before anything is decoded, and a body longer than it fails
  the request (the specification allows BAD_REQUEST and PAYLOAD_TOO_LARGE; the failure
  here is PAYLOAD_TOO_LARGE); \<^verbatim>\<open>application/json\<close> is parsed as JSON, and a text that is
  no JSON fails with PARSE_ERROR "Failed to parse request body";
  \<^verbatim>\<open>application/x-www-form-urlencoded\<close> is parsed as key and value pairs; a body of any
  other content type passes through undecoded. The specification names no default for
  the maximum size, and without a configured one nothing is refused here. The two parsers
  are arguments.
\<close>

definition payload_too_large :: thrown where
  "payload_too_large =
     Thrown_TRPCError
       \<lparr>err_code = PAYLOAD_TOO_LARGE, err_message = ''Request body too large'', err_cause = None\<rparr>"

definition decode :: "(string \<Rightarrow> json option) \<Rightarrow> (string \<Rightarrow> json option) \<Rightarrow> string option \<Rightarrow> string option \<Rightarrow> nat option \<Rightarrow> thrown + json" where
  "decode parseJson parseForm raw contentType maxSize =
     (case raw of
        None \<Rightarrow> Inr JUndefined
      | Some bytes \<Rightarrow>
          if (case maxSize of Some m \<Rightarrow> m < length bytes | None \<Rightarrow> False) then
            Inl payload_too_large
          else if contentType = Some ''application/json'' then
            (case parseJson bytes of
               Some v \<Rightarrow> Inr v
             | None \<Rightarrow> Inl (parse_failure ''SyntaxError''))
          else if contentType = Some ''application/x-www-form-urlencoded'' then
            (case parseForm bytes of
               Some v \<Rightarrow> Inr v
             | None \<Rightarrow> Inl (parse_failure ''Error''))
          else Inr (JString bytes))"

text \<open>
  Modelled from the spec: the decoder on a request. The bytes on the stream are decoded
  under the content type of the headers and the limit given. A request that already
  carries a decoded body has no stream left to measure, and that body is handed on: the
  mock request of the Lambda adapter is such a request, and the tests of the adapter post
  bodies that reach the procedure.
\<close>

definition getBody_decoder :: "(string \<Rightarrow> json option) \<Rightarrow> (string \<Rightarrow> json option) \<Rightarrow> request \<Rightarrow> nat option \<Rightarrow> thrown + json" where
  "getBody_decoder parseJson parseForm req maxBodySize =
     (case req_body req of
        Some v \<Rightarrow> Inr v
      | None \<Rightarrow>
          decode parseJson parseForm (req_raw req) (header_contentType (req_headers req)) maxBodySize)"


section \<open>The lookup as the specification words it\<close>

text \<open>
  The patterns registered under a method, in registration order, each with its
  descriptor: one for every procedure of the router that carries enabled OpenAPI
  metadata for that method and is a query or a mutation.
\<close>

definition registrations :: "path_utils \<Rightarrow> (string \<times> procedure) list \<Rightarrow> string \<Rightarrow> ((string \<Rightarrow> groups option) \<times> descriptor) list" where
  "registrations u procedures meth =
     concat (map (\<lambda>(queryPath, proc).
        (case proc_openapi proc of
           None \<Rightarrow> []
         | Some oa \<Rightarrow>
             (case proc_type proc of
                None \<Rightarrow> []
              | Some ty \<Rightarrow>
                  if openapi_enabled oa \<noteq> Some False \<and> method_string (openapi_method oa) = meth
                     \<and> (ty = Mutation \<or> ty = Query)
                  then [(getPathRegExp u (normalizePath u (openapi_path oa)),
                         \<lparr>d_type = ty, d_path = queryPath, d_procedure = proc\<rparr>)]
                  else []))) procedures)"

text \<open>First match wins: the first registered pattern that matches the path, with its
  descriptor and the groups of the match.\<close>

definition first_match :: "((string \<Rightarrow> groups option) \<times> descriptor) list \<Rightarrow> string \<Rightarrow> (descriptor \<times> groups) option" where
  "first_match regs path =
     (case find (\<lambda>(pattern, d). pattern path \<noteq> None) regs of
        None \<Rightarrow> None
      | Some (pattern, d) \<Rightarrow> Some (d, (case pattern path of Some g \<Rightarrow> g | None \<Rightarrow> [])))"

text \<open>The state of the cache while it is built: the identities handed out so far bound
  those in the cache, and no inner map holds an identity twice.\<close>

definition method_cache_inv :: "nat \<Rightarrow> method_cache \<Rightarrow> bool" where
  "method_cache_inv n mc =
     (list_all (\<lambda>(re, d). re_id re < n) mc \<and> distinct (map (\<lambda>(re, d). re_id re) mc))"

definition cache_inv :: "nat \<Rightarrow> procedure_cache \<Rightarrow> bool" where
  "cache_inv n c = list_all (\<lambda>(m, mc). method_cache_inv n mc) c"

definition entries_of :: "procedure_cache \<Rightarrow> string \<Rightarrow> ((string \<Rightarrow> groups option) \<times> descriptor) list" where
  "entries_of c meth =
     (case Map_get id c meth of
        None \<Rightarrow> []
      | Some mc \<Rightarrow> map (\<lambda>(re, d). (re_exec re, d)) mc)"

section \<open>An example router\<close>

text \<open>
  An instance of the path utilities for the examples below. A template is matched segment
  by segment; a segment that starts with a colon captures the segment of the path under
  its name, every other segment must be equal. Normalisation strips one leading and one
  trailing slash and puts a slash in front.
\<close>

fun split_path :: "string \<Rightarrow> string \<Rightarrow> string list" where
  "split_path acc [] = [acc]"
| "split_path acc (c # cs) =
     (if c = CHR ''/'' then acc # split_path [] cs else split_path (acc @ [c]) cs)"

fun match_segments :: "string list \<Rightarrow> string list \<Rightarrow> groups option" where
  "match_segments [] [] = Some []"
| "match_segments (t # ts) (p # ps) =
     (if take 1 t = '':'' then
        (if p = [] then None
         else map_option (\<lambda>g. (drop 1 t, JString p) # g) (match_segments ts ps))
      else if t = p then match_segments ts ps
      else None)"
| "match_segments ts ps = None"

definition strip_slashes :: "string \<Rightarrow> string" where
  "strip_slashes path =
     (let p1 = (if take 1 path = ''/'' then drop 1 path else path)
      in if p1 \<noteq> [] \<and> last p1 = CHR ''/'' then butlast p1 else p1)"

definition ex_paths :: path_utils where
  "ex_paths =
     \<lparr>normalizePath = (\<lambda>path. ''/'' @ strip_slashes path),
      getPathRegExp = (\<lambda>template path.
         match_segments (split_path [] template) (split_path [] path))\<rparr>"

text \<open>What a procedure throws when the validation of its input fails: BAD_REQUEST with a
  ZodError as its cause.\<close>

definition zod_failure :: thrown where
  "zod_failure =
     Thrown_TRPCError
       \<lparr>err_code = BAD_REQUEST, err_message = ''invalid input'',
        err_cause =
          Some \<lparr>cause_instanceofError = True, cause_name = ''ZodError'',
                cause_errors =
                  JArray [JObject [(''code'', JString ''invalid_type''),
                                   (''expected'', JString ''string''),
                                   (''message'', JString ''Required''),
                                   (''path'', JArray [JString ''name'']),
                                   (''received'', JString ''undefined'')]]\<rparr>\<rparr>"

text \<open>A procedure with enabled OpenAPI metadata, and the descriptor the cache keeps for
  it under its name.\<close>

definition ex_procedure :: "OpenApiMethod \<Rightarrow> string \<Rightarrow> ProcedureType \<Rightarrow> zod_kind \<Rightarrow> procedure" where
  "ex_procedure m template ty kind =
     \<lparr>proc_openapi = Some \<lparr>openapi_enabled = None, openapi_method = m, openapi_path = template\<rparr>,
      proc_type = Some ty, proc_input = kind\<rparr>"

definition ex_descriptor :: "string \<Rightarrow> OpenApiMethod \<Rightarrow> string \<Rightarrow> ProcedureType \<Rightarrow> zod_kind \<Rightarrow> descriptor" where
  "ex_descriptor name m template ty kind =
     \<lparr>d_type = ty, d_path = name, d_procedure = ex_procedure m template ty kind\<rparr>"

text \<open>
  A router with two overlapping GET templates, an object-shaped POST, an array-shaped POST
  and a POST without input. A call answers the path and the input it was given, except
  that \<open>postHello\<close> rejects an input without a name.
\<close>

definition ex_router :: router where
  "ex_router =
     \<lparr>router_procedures =
        [(''getUser'', ex_procedure GET ''/users/:id'' Query ZodObject),
         (''getMe'', ex_procedure GET ''/users/me'' Query ZodObject),
         (''postHello'', ex_procedure POST ''/hello'' Mutation ZodObject),
         (''getHelloArray'', ex_procedure POST ''/array'' Query ZodArray),
         (''ping'', ex_procedure POST ''/ping'' Mutation ZodVoidLike)],
      router_errorFormatter = (\<lambda>error path. Some \<lparr>shape_message = Some (err_message error)\<rparr>),
      router_createCaller = (\<lambda>ctx path. Some (\<lambda>input.
         if path = ''postHello'' \<and> map_of (own_props input) ''name'' = None then Inl zod_failure
         else Inr (JObject [(''procedure'', JString path), (''input'', input)])))\<rparr>"

text \<open>A stand-in for \<^verbatim>\<open>JSON.parse\<close> that knows the texts of the examples and throws on
  every other text.\<close>

definition ex_JSON_parse :: "string \<Rightarrow> json option" where
  "ex_JSON_parse text =
     map_of [(''{}'', JObject []), (''[]'', JArray []),
             (''[1,2]'', JArray [JNumber 1, JNumber 2]), (''null'', JNull),
             (''[1,2,3,4,5,6,7,8,9,10,11,12]'',
              JArray [JNumber 1, JNumber 2, JNumber 3, JNumber 4, JNumber 5, JNumber 6,
                      JNumber 7, JNumber 8, JNumber 9, JNumber 10, JNumber 11, JNumber 12])]
       text"

text \<open>
  An environment for the examples. Its \<^verbatim>\<open>getBody\<close> is the body decoder over its
  parsers; its \<^verbatim>\<open>getQuery\<close> returns the query of the request.
\<close>

definition ex_env :: env where
  "ex_env =
     \<lparr>env_paths = ex_paths,
      URL_pathname = (\<lambda>s. if take 16 s = ''http://127.0.0.1''
                           then Some (takeWhile (\<lambda>c. c \<noteq> CHR ''?'') (drop 16 s)) else None),
      acceptsRequestBody = (\<lambda>m. m \<noteq> ''GET'' \<and> m \<noteq> ''HEAD''),
      getBody = getBody_decoder ex_JSON_parse (\<lambda>text. Some (JObject [])),
      getQuery = (\<lambda>req url. Inr (case req_query req of Some q \<Rightarrow> q | None \<Rightarrow> JObject [])),
      generateOpenApiDocument = (\<lambda>r. None),
      JSON_parse = ex_JSON_parse,
      querystring_parse = (\<lambda>text. Some (JObject []))\<rparr>"

definition ex_opts :: handler_opts where
  "ex_opts =
     \<lparr>opts_router = ex_router, opts_createContext = None, opts_responseMeta = None,
      opts_maxBodySize = Some 10\<rparr>"

text \<open>A \<^verbatim>\<open>responseMeta\<close> that overrides the status.\<close>

definition ex_responseMeta :: "nat \<Rightarrow> meta_args \<Rightarrow> response_meta" where
  "ex_responseMeta s args = \<lparr>meta_status = Some s, meta_headers = None\<rparr>"

definition ex_request :: "string \<Rightarrow> string \<Rightarrow> request" where
  "ex_request meth url =
     \<lparr>req_method = meth, req_url = url, req_query = None,
      req_headers = [(''content-type'', ''application/json'')],
      req_body = None, req_raw = None\<rparr>"

text \<open>The same router with an error formatter that replaces every message.\<close>

definition ex_formatting_router :: router where
  "ex_formatting_router =
     ex_router\<lparr>router_errorFormatter :=
       (\<lambda>error path. Some \<lparr>shape_message = Some ''Something went wrong''\<rparr>)\<rparr>"

definition ex_lambda_opts :: lambda_opts where
  "ex_lambda_opts =
     \<lparr>l_router = ex_router, l_createContext = None, l_responseMeta = None,
      l_maxBodySize = None\<rparr>"

text \<open>A gateway event of format 1.0 with a JSON content type.\<close>

definition ex_event :: "string \<Rightarrow> string \<Rightarrow> string \<Rightarrow> event" where
  "ex_event meth path body =
     \<lparr>ev_version = None, ev_path = Some path, ev_rawPath = None, ev_httpMethod = Some meth,
      ev_requestContext_http_method = None,
      ev_headers = Some [(''Content-Type'', ''application/json'')],
      ev_body = Some body, ev_queryStringParameters = None\<rparr>"


section \<open>The procedure cache finds the first match\<close>

lemma Map_get_set: "Map_get ident (Map_set ident m k v) k' = (if ident k = ident k' then Some v else Map_get ident m k')"
  by (induction m) auto

lemma Map_set_fresh: "list_all (\<lambda>(k', v'). ident k' \<noteq> ident k) m \<Longrightarrow> Map_set ident m k v = m @ [(k, v)]"
  by (induction m) auto

lemma method_cache_inv_mono: "method_cache_inv n mc \<Longrightarrow> n \<le> n' \<Longrightarrow> method_cache_inv n' mc"
  by (auto simp: method_cache_inv_def list_all_iff)

lemma cache_inv_mono: "cache_inv n c \<Longrightarrow> n \<le> n' \<Longrightarrow> cache_inv n' c"
  by (auto simp: cache_inv_def list_all_iff intro: method_cache_inv_mono)

lemma cache_inv_get: "cache_inv n c \<Longrightarrow> Map_get id c m = Some mc \<Longrightarrow> method_cache_inv n mc"
  by (induction c) (auto simp: cache_inv_def split: if_splits)

lemma cache_inv_set: "cache_inv n c \<Longrightarrow> method_cache_inv n mc \<Longrightarrow> cache_inv n (Map_set id c m mc)"
  by (induction c) (auto simp: cache_inv_def)

lemma method_cache_add:
  assumes "method_cache_inv n mc"
  shows "Map_set re_id mc \<lparr>re_id = n, re_exec = f\<rparr> d = mc @ [(\<lparr>re_id = n, re_exec = f\<rparr>, d)]"
    and "method_cache_inv (Suc n) (Map_set re_id mc \<lparr>re_id = n, re_exec = f\<rparr> d)"
proof -
  have fresh: "list_all (\<lambda>(k', v'). re_id k' \<noteq> re_id \<lparr>re_id = n, re_exec = f\<rparr>) mc"
    using assms by (auto simp: method_cache_inv_def list_all_iff)
  show eq: "Map_set re_id mc \<lparr>re_id = n, re_exec = f\<rparr> d = mc @ [(\<lparr>re_id = n, re_exec = f\<rparr>, d)]"
    by (rule Map_set_fresh [OF fresh])
  show "method_cache_inv (Suc n) (Map_set re_id mc \<lparr>re_id = n, re_exec = f\<rparr> d)"
    unfolding eq using assms by (force simp: method_cache_inv_def list_all_iff)
qed

lemma register_inv:
  assumes "cache_inv n c"
  shows "cache_inv (fst (register u (n, c) qp ty proc oa)) (snd (register u (n, c) qp ty proc oa))"
proof -
  let ?m = "method_string (openapi_method oa)"
  let ?c1 = "if \<not> Map_has id c ?m then Map_set id c ?m [] else c"
  have e: "method_cache_inv n []" by (simp add: method_cache_inv_def)
  have c1: "cache_inv n ?c1" using assms cache_inv_set [OF assms e] by simp
  have c1S: "cache_inv (Suc n) ?c1" using c1 by (rule cache_inv_mono) simp
  show ?thesis
  proof (cases "Map_get id ?c1 ?m")
    case None
    then show ?thesis using c1S by (simp add: register_def Let_def)
  next
    case (Some mc)
    have "method_cache_inv n mc" using c1 Some by (rule cache_inv_get)
    then have "method_cache_inv (Suc n) (Map_set re_id mc \<lparr>re_id = n, re_exec = getPathRegExp u (normalizePath u (openapi_path oa))\<rparr> \<lparr>d_type = ty, d_path = qp, d_procedure = proc\<rparr>)"
      by (rule method_cache_add(2))
    then have "cache_inv (Suc n) (Map_set id ?c1 ?m (Map_set re_id mc \<lparr>re_id = n, re_exec = getPathRegExp u (normalizePath u (openapi_path oa))\<rparr> \<lparr>d_type = ty, d_path = qp, d_procedure = proc\<rparr>))"
      using c1S by (intro cache_inv_set)
    then show ?thesis using c1S Some by (simp add: register_def Let_def)
  qed
qed

lemma register_entries:
  assumes "cache_inv n c"
  shows "entries_of (snd (register u (n, c) qp ty proc oa)) meth =
         entries_of c meth @
           (if method_string (openapi_method oa) = meth \<and> (ty = Mutation \<or> ty = Query)
            then [(getPathRegExp u (normalizePath u (openapi_path oa)), \<lparr>d_type = ty, d_path = qp, d_procedure = proc\<rparr>)] else [])"
proof -
  let ?m = "method_string (openapi_method oa)"
  let ?c1 = "if \<not> Map_has id c ?m then Map_set id c ?m [] else c"
  have e: "method_cache_inv n []" by (simp add: method_cache_inv_def)
  have c1: "cache_inv n ?c1" using assms cache_inv_set [OF assms e] by simp
  have ent1: "entries_of ?c1 meth = entries_of c meth"
    by (auto simp: entries_of_def Map_get_set Map_has_def split: option.splits)
  obtain mc where mc: "Map_get id ?c1 ?m = Some mc"
    by (cases "Map_get id c ?m") (auto simp: Map_get_set Map_has_def)
  have inv: "method_cache_inv n mc" using c1 mc by (rule cache_inv_get)
  show ?thesis
  proof (cases "ty = Mutation \<or> ty = Query")
    case False
    then show ?thesis using ent1 by (simp add: register_def Let_def)
  next
    case True
    have r: "snd (register u (n, c) qp ty proc oa) = Map_set id ?c1 ?m (mc @ [(\<lparr>re_id = n, re_exec = getPathRegExp u (normalizePath u (openapi_path oa))\<rparr>, \<lparr>d_type = ty, d_path = qp, d_procedure = proc\<rparr>)])"
      using True mc method_cache_add(1) [OF inv] by (simp add: register_def Let_def)
    show ?thesis
    proof (cases "?m = meth")
      case False
      then show ?thesis unfolding r using ent1 True
        by (simp add: entries_of_def Map_get_set)
    next
      case same: True
      have "entries_of ?c1 meth = map (\<lambda>(re, d). (re_exec re, d)) mc"
        using mc same by (simp add: entries_of_def)
      then show ?thesis unfolding r using ent1 True same
        by (simp add: entries_of_def Map_get_set)
    qed
  qed
qed

lemma forEach_entries:
  "cache_inv (fst st) (snd st) \<Longrightarrow>
   cache_inv (fst (forEachOpenApiProcedure procs (register u) st)) (snd (forEachOpenApiProcedure procs (register u) st))
   \<and> entries_of (snd (forEachOpenApiProcedure procs (register u) st)) meth
     = entries_of (snd st) meth @ registrations u procs meth"
proof (induction procs arbitrary: st)
  case Nil
  then show ?case by (simp add: registrations_def)
next
  case (Cons p procs)
  obtain qp pr where p: "p = (qp, pr)" by (cases p)
  obtain n c where st: "st = (n, c)" by (cases st)
  have inv: "cache_inv n c" using Cons.prems st by simp
  let ?st' = "(case proc_openapi pr of
          Some oa \<Rightarrow>
            if openapi_enabled oa \<noteq> Some False then
              (case proc_type pr of
                 Some ty \<Rightarrow> register u st qp ty pr oa
               | None \<Rightarrow> st)
            else st
        | None \<Rightarrow> st)"
  have inv': "cache_inv (fst ?st') (snd ?st')"
    using inv register_inv [OF inv] st by (auto split: option.splits)
  have ent': "entries_of (snd ?st') meth = entries_of (snd st) meth @ registrations u [p] meth"
    using register_entries [OF inv] st p by (auto simp: registrations_def split: option.splits)
  have split: "registrations u (p # procs) meth = registrations u [p] meth @ registrations u procs meth"
    by (simp add: registrations_def)
  show ?case using Cons.IH [OF inv'] ent' split by (simp add: p)
qed

lemma createProcedureCache_entries:
  "entries_of (createProcedureCache u procs) meth = registrations u procs meth"
  using forEach_entries [of "(0, [])" procs u meth]
  by (simp add: createProcedureCache_def cache_inv_def entries_of_def)

lemma createProcedureCache_inv:
  "cache_inv (fst (forEachOpenApiProcedure procs (register u) (0, []))) (createProcedureCache u procs)"
  using forEach_entries [of "(0, [])" procs u]
  by (simp add: createProcedureCache_def cache_inv_def)

lemma find_keys_get:
  "distinct (map (\<lambda>(re, d). re_id re) mc) \<Longrightarrow>
   (case find (\<lambda>re. re_test re path) (map fst mc) of
      None \<Rightarrow> None
    | Some re \<Rightarrow>
        (case Map_get re_id mc re of
           None \<Rightarrow> None
         | Some proc \<Rightarrow> Some (proc, (case re_exec re path of Some g \<Rightarrow> g | None \<Rightarrow> []))))
   = first_match (map (\<lambda>(re, d). (re_exec re, d)) mc) path"
proof (induction mc)
  case Nil
  then show ?case by (simp add: first_match_def)
next
  case (Cons a mc)
  obtain re d where a: "a = (re, d)" by (cases a)
  show ?case
  proof (cases "re_test re path")
    case True
    then show ?thesis by (simp add: a first_match_def re_test_def)
  next
    case False
    have IH: "(case find (\<lambda>re. re_test re path) (map fst mc) of
      None \<Rightarrow> None
    | Some re \<Rightarrow>
        (case Map_get re_id mc re of
           None \<Rightarrow> None
         | Some proc \<Rightarrow> Some (proc, (case re_exec re path of Some g \<Rightarrow> g | None \<Rightarrow> []))))
       = first_match (map (\<lambda>(re, d). (re_exec re, d)) mc) path"
      using Cons by simp
    have fm: "first_match (map (\<lambda>(re, d). (re_exec re, d)) (a # mc)) path = first_match (map (\<lambda>(re, d). (re_exec re, d)) mc) path"
      using False by (simp add: a first_match_def re_test_def)
    show ?thesis
    proof (cases "find (\<lambda>re. re_test re path) (map fst mc)")
      case None
      then show ?thesis using False IH fm by (simp add: a)
    next
      case (Some re')
      then have "re' \<in> set (map fst mc)" by (auto simp: find_Some_iff)
      then have "re_id re' \<in> set (map (\<lambda>(re, d). re_id re) mc)" by force
      then have "re_id re \<noteq> re_id re'" using Cons.prems by (auto simp: a)
      then show ?thesis using False IH fm Some by (simp add: a)
    qed
  qed
qed

lemma getProcedure_first_match:
  "getProcedure (createProcedureCache u procs) meth path = first_match (registrations u procs meth) path"
proof (cases "Map_get id (createProcedureCache u procs) meth")
  case None
  then have "registrations u procs meth = []"
    using createProcedureCache_entries [of u procs meth] by (simp add: entries_of_def)
  then show ?thesis using None by (simp add: getProcedure_def first_match_def)
next
  case (Some mc)
  have "method_cache_inv (fst (forEachOpenApiProcedure procs (register u) (0, []))) mc"
    using createProcedureCache_inv Some by (rule cache_inv_get)
  then have d: "distinct (map (\<lambda>(re, d). re_id re) mc)" by (simp add: method_cache_inv_def)
  have "registrations u procs meth = map (\<lambda>(re, d). (re_exec re, d)) mc"
    using createProcedureCache_entries [of u procs meth] Some by (simp add: entries_of_def)
  then show ?thesis using Some find_keys_get [OF d, of path] by (simp add: getProcedure_def)
qed

lemma first_match_append:
  "list_all (\<lambda>(pattern, d). pattern path = None) pre \<Longrightarrow> pattern path = Some g \<Longrightarrow>
   first_match (pre @ (pattern, d) # post) path = Some (d, g)"
  by (induction pre) (auto simp: first_match_def)

text \<open>
  C3. For every method and path, the lookup scans the patterns registered under that
  method, in registration order, and returns the first pattern that matches the path
  together with its descriptor and the groups of the match. In particular, a registered
  pattern that matches is selected whenever no pattern registered before it matches,
  whatever is registered after it.
\<close>

theorem lookup_first_match_wins:
  "getProcedure (createProcedureCache u procedures) meth path
     = first_match (registrations u procedures meth) path
   \<and> (\<forall>pre pattern d post g.
        registrations u procedures meth = pre @ (pattern, d) # post
        \<and> list_all (\<lambda>(earlier, d'). earlier path = None) pre
        \<and> pattern path = Some g
        \<longrightarrow> getProcedure (createProcedureCache u procedures) meth path = Some (d, g))"
  by (auto simp: getProcedure_first_match first_match_append)

theorem lookup_first_match_wins_witness:
  "getPathRegExp ex_paths (normalizePath ex_paths ''/users/:id'') ''/users/me'' = Some [(''id'', JString ''me'')]
   \<and> getPathRegExp ex_paths (normalizePath ex_paths ''/users/me'') ''/users/me'' = Some []
   \<and> getProcedure (createProcedureCache ex_paths (router_procedures ex_router)) ''GET'' ''/users/me''
       = Some (ex_descriptor ''getUser'' GET ''/users/:id'' Query ZodObject, [(''id'', JString ''me'')])"
proof -
  let ?p1 = "getPathRegExp ex_paths (normalizePath ex_paths ''/users/:id'')"
  let ?p2 = "getPathRegExp ex_paths (normalizePath ex_paths ''/users/me'')"
  let ?d1 = "ex_descriptor ''getUser'' GET ''/users/:id'' Query ZodObject"
  let ?d2 = "ex_descriptor ''getMe'' GET ''/users/me'' Query ZodObject"
  have regs: "registrations ex_paths (router_procedures ex_router) ''GET'' = [] @ (?p1, ?d1) # [(?p2, ?d2)]"
    by (simp add: registrations_def ex_router_def ex_procedure_def ex_descriptor_def)
  have m1: "?p1 ''/users/me'' = Some [(''id'', JString ''me'')]"
    by (simp add: ex_paths_def strip_slashes_def)
  have m2: "?p2 ''/users/me'' = Some []"
    by (simp add: ex_paths_def strip_slashes_def)
  have "getProcedure (createProcedureCache ex_paths (router_procedures ex_router)) ''GET'' ''/users/me''
          = Some (?d1, [(''id'', JString ''me'')])"
    using lookup_first_match_wins [of ex_paths "router_procedures ex_router" "''GET''" "''/users/me''",
        THEN conjunct2, THEN spec, of "[]", THEN spec, of ?p1, THEN spec, of ?d1,
        THEN spec, of "[(?p2, ?d2)]", THEN spec, of "[(''id'', JString ''me'')]"]
      regs m1 by simp
  then show ?thesis using m1 m2 by simp
qed

section \<open>The input handed to the procedure\<close>

lemma map_of_obj_set: "map_of (obj_set kvs k v) = (map_of kvs)(k \<mapsto> v)"
  by (induction kvs) (auto simp: fun_eq_iff)

lemma map_of_foldl_obj_set:
  "map_of (foldl (\<lambda>obj (k, v). obj_set obj k v) acc xs) = map_of acc ++ map_of (rev xs)"
proof (induction xs arbitrary: acc)
  case Nil
  then show ?case by simp
next
  case (Cons x xs)
  obtain k v where x: "x = (k, v)" by (cases x)
  show ?case
    by (simp add: Cons.IH x map_of_obj_set map_add_def fun_eq_iff split: option.splits)
qed

lemma map_of_rev_distinct: "distinct (map fst xs) \<Longrightarrow> map_of (rev xs) = map_of xs"
proof (induction xs)
  case Nil
  then show ?case by simp
next
  case (Cons x xs)
  obtain k v where x: "x = (k, v)" by (cases x)
  have "map_of xs k = None" using Cons.prems by (simp add: x map_of_eq_None_iff)
  then show ?case using Cons
    by (auto simp: x map_add_def fun_eq_iff split: option.splits)
qed

lemma map_of_spread:
  assumes "distinct (map fst a)" and "distinct (map fst b)"
  shows "map_of (spread a b) k = (case map_of b k of Some x \<Rightarrow> Some x | None \<Rightarrow> map_of a k)"
proof -
  have "map_of (spread a b) = map_of (rev a) ++ map_of (rev b)"
    by (simp add: spread_def map_of_foldl_obj_set)
  moreover have "map_of (rev a) = map_of a" using assms(1) by (simp add: map_of_rev_distinct)
  moreover have "map_of (rev b) = map_of b" using assms(2) by (simp add: map_of_rev_distinct)
  ultimately show ?thesis by (simp add: map_add_def)
qed

lemma catch_clause_fields:
  "hr_invoked (catch_clause opts path proc ctx invoked cause) = invoked"
  "hr_error (catch_clause opts path proc ctx invoked cause) = Some (getErrorFromUnknown cause)"
  "\<exists>res body. hr_outcome (catch_clause opts path proc ctx invoked cause) = Sent res
      \<and> res_body res = ErrorBody body
      \<and> res_statusCode res = error_statusCode (hr_meta (catch_clause opts path proc ctx invoked cause)) (getErrorFromUnknown cause)
      \<and> er_code body = err_code (getErrorFromUnknown cause)
      \<and> er_message body =
           (if isInputValidationError (getErrorFromUnknown cause) then ''Input validation failed''
            else (case Option.bind (getErrorShape (opts_router opts) (getErrorFromUnknown cause) (Some path)) shape_message of
                    Some m \<Rightarrow> m | None \<Rightarrow> err_message (getErrorFromUnknown cause)))
      \<and> er_issues body =
           (if isInputValidationError (getErrorFromUnknown cause)
            then (case err_cause (getErrorFromUnknown cause) of Some c \<Rightarrow> cause_errors c | None \<Rightarrow> JUndefined)
            else JUndefined)"
  by (auto simp: catch_clause_def Let_def sendResponse_def split: option.splits)

lemma handler_not_found:
  assumes "URL_pathname e (handler_url req) = Some pathname"
    and "handler_lookup e opts req pathname = None"
  shows "openApiHttpHandler e opts req next =
     (if next then
        \<lparr>hr_outcome = CalledNext, hr_invoked = None, hr_error = None, hr_meta = None\<rparr>
      else if req_method req = ''HEAD'' then
        \<lparr>hr_outcome = Sent (sendResponse 204 [] NoBody),
         hr_invoked = None, hr_error = None, hr_meta = None\<rparr>
      else
        catch_clause opts (normalizePath (env_paths e) pathname) None JUndefined None
          (Thrown_TRPCError
            \<lparr>err_code = NOT_FOUND, err_message = ''Not found'', err_cause = None\<rparr>))"
  using assms by (simp add: openApiHttpHandler_def Let_def)

lemma handler_found:
  assumes "URL_pathname e (handler_url req) = Some pathname"
    and "handler_lookup e opts req pathname = Some (procedure, pathInput)"
  shows "openApiHttpHandler e opts req next =
     (let path = normalizePath (env_paths e) pathname in
      case reconcileInput e opts req (handler_url req) (proc_input (d_procedure procedure)) pathInput of
        Inl cause \<Rightarrow> catch_clause opts path (Some procedure) JUndefined None cause
      | Inr input \<Rightarrow>
         (case handler_context opts req of
            Inl cause \<Rightarrow> catch_clause opts path (Some procedure) JUndefined None cause
          | Inr ctx \<Rightarrow>
             (case router_createCaller (opts_router opts) ctx (d_path procedure) of
                None \<Rightarrow>
                  catch_clause opts path (Some procedure) ctx None
                    (Thrown_TRPCError
                      \<lparr>err_code = INTERNAL_SERVER_ERROR,
                       err_message = ''Procedure not found'',
                       err_cause = None\<rparr>)
              | Some procedureFn \<Rightarrow>
                 (case procedureFn input of
                    Inl cause \<Rightarrow>
                      catch_clause opts path (Some procedure) ctx
                        (Some (d_path procedure, input)) cause
                  | Inr data \<Rightarrow>
                     (let meta = map_option (\<lambda>responseMeta. responseMeta
                                   \<lparr>ma_type = Some (d_type procedure),
                                    ma_paths = Some [Some (d_path procedure)],
                                    ma_ctx = ctx, ma_data = [data], ma_errors = []\<rparr>)
                                 (opts_responseMeta opts);
                          statusCode = (case Option.bind meta meta_status of
                                          Some s \<Rightarrow> s | None \<Rightarrow> 200);
                          headers = meta_headers_or_empty meta
                      in \<lparr>hr_outcome =
                            Sent (sendResponse statusCode (headersToRecord headers)
                                    (SuccessBody data)),
                          hr_invoked = Some (d_path procedure, input),
                          hr_error = None, hr_meta = meta\<rparr>)))))"
  using assms by (simp add: openApiHttpHandler_def Let_def)

lemma handler_invoked:
  assumes "URL_pathname e (handler_url req) = Some pathname"
    and "handler_lookup e opts req pathname = Some (procedure, pathInput)"
    and "hr_invoked (openApiHttpHandler e opts req next) = Some (p, input)"
  shows "p = d_path procedure
     \<and> reconcileInput e opts req (handler_url req) (proc_input (d_procedure procedure)) pathInput = Inr input"
  using assms(3) unfolding handler_found [OF assms(1,2)]
  by (auto simp: Let_def catch_clause_fields split: sum.splits option.splits)

lemma handler_invokes:
  assumes "URL_pathname e (handler_url req) = Some pathname"
    and "handler_lookup e opts req pathname = Some (procedure, pathInput)"
    and "reconcileInput e opts req (handler_url req) (proc_input (d_procedure procedure)) pathInput = Inr input"
    and "handler_context opts req = Inr ctx"
    and "router_createCaller (opts_router opts) ctx (d_path procedure) = Some procedureFn"
  shows "hr_invoked (openApiHttpHandler e opts req next) = Some (d_path procedure, input)"
  unfolding handler_found [OF assms(1,2)] using assms(3-5)
  by (auto simp: Let_def catch_clause_fields split: sum.splits option.splits)

lemma handler_reconcile_fails:
  assumes "URL_pathname e (handler_url req) = Some pathname"
    and "handler_lookup e opts req pathname = Some (procedure, pathInput)"
    and "reconcileInput e opts req (handler_url req) (proc_input (d_procedure procedure)) pathInput = Inl cause"
  shows "openApiHttpHandler e opts req next
     = catch_clause opts (normalizePath (env_paths e) pathname) (Some procedure) JUndefined None cause"
  unfolding handler_found [OF assms(1,2)] using assms(3) by (simp add: Let_def)

text \<open>
  C1. For a matched procedure whose input schema is neither like void nor an array,
  whenever the procedure is called its input is the object
  \<^verbatim>\<open>{...bodyOrQuery, ...pathInput}\<close> of the decoded body or query and the path
  parameters; it is called with that object as soon as the context is made and the caller
  has the procedure; and in that object a key of the path parameters has the path
  parameter's value, every other key the value of the body or query.
\<close>

theorem object_input_merges_path_parameters:
  assumes "URL_pathname e (handler_url req) = Some pathname"
    and "handler_lookup e opts req pathname = Some (procedure, pathInput)"
    and "proc_input (d_procedure procedure) \<noteq> ZodVoidLike"
    and "proc_input (d_procedure procedure) \<noteq> ZodArray"
  shows "(\<forall>p input. hr_invoked (openApiHttpHandler e opts req next) = Some (p, input) \<longrightarrow>
            p = d_path procedure
            \<and> (\<exists>v. bodyOrQuery e opts req (handler_url req) = Inr v
                   \<and> input = JObject (spread (own_props v) pathInput)))
       \<and> (\<forall>v ctx procedureFn.
            bodyOrQuery e opts req (handler_url req) = Inr v
            \<and> handler_context opts req = Inr ctx
            \<and> router_createCaller (opts_router opts) ctx (d_path procedure) = Some procedureFn
            \<longrightarrow> hr_invoked (openApiHttpHandler e opts req next)
                  = Some (d_path procedure, JObject (spread (own_props v) pathInput)))
       \<and> (\<forall>v k. distinct (map fst (own_props v)) \<and> distinct (map fst pathInput) \<longrightarrow>
            map_of (spread (own_props v) pathInput) k
              = (case map_of pathInput k of Some x \<Rightarrow> Some x | None \<Rightarrow> map_of (own_props v) k))"
proof (intro conjI allI impI)
  fix p input
  assume "hr_invoked (openApiHttpHandler e opts req next) = Some (p, input)"
  from handler_invoked [OF assms(1,2) this]
  have p: "p = d_path procedure"
    and r: "reconcileInput e opts req (handler_url req) (proc_input (d_procedure procedure)) pathInput = Inr input"
    by simp_all
  show "p = d_path procedure" by (rule p)
  show "\<exists>v. bodyOrQuery e opts req (handler_url req) = Inr v
             \<and> input = JObject (spread (own_props v) pathInput)"
    using r assms(3,4) by (auto simp: reconcileInput_def split: sum.splits)
next
  fix v ctx procedureFn
  assume h: "bodyOrQuery e opts req (handler_url req) = Inr v
            \<and> handler_context opts req = Inr ctx
            \<and> router_createCaller (opts_router opts) ctx (d_path procedure) = Some procedureFn"
  have r: "reconcileInput e opts req (handler_url req) (proc_input (d_procedure procedure)) pathInput
             = Inr (JObject (spread (own_props v) pathInput))"
    using h assms(3,4) by (simp add: reconcileInput_def)
  show "hr_invoked (openApiHttpHandler e opts req next)
          = Some (d_path procedure, JObject (spread (own_props v) pathInput))"
    using handler_invokes [OF assms(1,2) r] h by blast
next
  fix v k
  assume "distinct (map fst (own_props v)) \<and> distinct (map fst pathInput)"
  then show "map_of (spread (own_props v) pathInput) k
              = (case map_of pathInput k of Some x \<Rightarrow> Some x | None \<Rightarrow> map_of (own_props v) k)"
    by (simp add: map_of_spread)
qed

theorem object_input_merges_path_parameters_witness:
  "URL_pathname ex_env (handler_url
        ((ex_request ''GET'' ''/users/p?id=q'')\<lparr>req_query := Some (JObject [(''id'', JString ''q''), (''x'', JNumber 1)])\<rparr>))
       = Some ''/users/p''
   \<and> handler_lookup ex_env ex_opts
        ((ex_request ''GET'' ''/users/p?id=q'')\<lparr>req_query := Some (JObject [(''id'', JString ''q''), (''x'', JNumber 1)])\<rparr>)
        ''/users/p''
       = Some (ex_descriptor ''getUser'' GET ''/users/:id'' Query ZodObject, [(''id'', JString ''p'')])
   \<and> bodyOrQuery ex_env ex_opts
        ((ex_request ''GET'' ''/users/p?id=q'')\<lparr>req_query := Some (JObject [(''id'', JString ''q''), (''x'', JNumber 1)])\<rparr>)
        (handler_url ((ex_request ''GET'' ''/users/p?id=q'')\<lparr>req_query := Some (JObject [(''id'', JString ''q''), (''x'', JNumber 1)])\<rparr>))
       = Inr (JObject [(''id'', JString ''q''), (''x'', JNumber 1)])
   \<and> hr_invoked (openApiHttpHandler ex_env ex_opts
        ((ex_request ''GET'' ''/users/p?id=q'')\<lparr>req_query := Some (JObject [(''id'', JString ''q''), (''x'', JNumber 1)])\<rparr>)
        False)
       = Some (''getUser'', JObject [(''id'', JString ''p''), (''x'', JNumber 1)])
   \<and> map_of (spread (own_props (JObject [(''id'', JString ''q''), (''x'', JNumber 1)])) [(''id'', JString ''p'')]) ''id''
       = Some (JString ''p'')
   \<and> map_of (spread (own_props (JObject [(''id'', JString ''q''), (''x'', JNumber 1)])) [(''id'', JString ''p'')]) ''x''
       = Some (JNumber 1)"
proof -
  let ?req = "(ex_request ''GET'' ''/users/p?id=q'')\<lparr>req_query := Some (JObject [(''id'', JString ''q''), (''x'', JNumber 1)])\<rparr>"
  let ?d = "ex_descriptor ''getUser'' GET ''/users/:id'' Query ZodObject"
  let ?v = "JObject [(''id'', JString ''q''), (''x'', JNumber 1)]"
  have url: "URL_pathname ex_env (handler_url ?req) = Some ''/users/p''"
    by code_simp
  have found: "handler_lookup ex_env ex_opts ?req ''/users/p'' = Some (?d, [(''id'', JString ''p'')])"
    by code_simp
  have k1: "proc_input (d_procedure ?d) \<noteq> ZodVoidLike" and k2: "proc_input (d_procedure ?d) \<noteq> ZodArray"
    by (simp_all add: ex_descriptor_def ex_procedure_def)
  have read: "bodyOrQuery ex_env ex_opts ?req (handler_url ?req) = Inr ?v"
    by code_simp
  have ctx: "handler_context ex_opts ?req = Inr JUndefined"
    by (simp add: handler_context_def ex_opts_def)
  obtain f where f: "router_createCaller (opts_router ex_opts) JUndefined (d_path ?d) = Some f"
    by (simp add: ex_opts_def ex_router_def)
  note inst = object_input_merges_path_parameters [OF url found k1 k2, of False]
  have "hr_invoked (openApiHttpHandler ex_env ex_opts ?req False)
          = Some (d_path ?d, JObject (spread (own_props ?v) [(''id'', JString ''p'')]))"
    using inst [THEN conjunct2, THEN conjunct1, THEN spec, of ?v, THEN spec, of JUndefined, THEN spec, of f]
      read ctx f by simp
  then have inv: "hr_invoked (openApiHttpHandler ex_env ex_opts ?req False)
          = Some (''getUser'', JObject [(''id'', JString ''p''), (''x'', JNumber 1)])"
    by (simp add: spread_def ex_descriptor_def)
  have dist: "distinct (map fst (own_props ?v)) \<and> distinct (map fst [(''id'', JString ''p'')])"
    by simp
  have keys: "map_of (spread (own_props ?v) [(''id'', JString ''p'')]) k
      = (case map_of [(''id'', JString ''p'')] k of Some x \<Rightarrow> Some x | None \<Rightarrow> map_of (own_props ?v) k)"
    for k
    using inst [THEN conjunct2, THEN conjunct2, THEN spec, of ?v, THEN spec, of k, THEN mp, OF dist] .
  have k_id: "map_of (spread (own_props ?v) [(''id'', JString ''p'')]) ''id'' = Some (JString ''p'')"
    unfolding keys by simp
  have k_x: "map_of (spread (own_props ?v) [(''id'', JString ''p'')]) ''x'' = Some (JNumber 1)"
    unfolding keys by simp
  show ?thesis using url found read inv k_id k_x by blast
qed

text \<open>
  C2. For a matched procedure whose input schema is an array: when the decoded body or
  query is not an array the handler fails with BAD_REQUEST and the message
  "Expected array in request body", and the procedure is not called; when it is an array,
  the procedure is only ever called with that array itself, whatever the path parameters
  are, and it is called with it as soon as the context is made and the caller has the
  procedure.
\<close>

theorem array_input_checked_and_unmerged:
  assumes "URL_pathname e (handler_url req) = Some pathname"
    and "handler_lookup e opts req pathname = Some (procedure, pathInput)"
    and "proc_input (d_procedure procedure) = ZodArray"
    and "bodyOrQuery e opts req (handler_url req) = Inr v"
  shows "(\<not> isArray v \<longrightarrow>
            hr_error (openApiHttpHandler e opts req next)
              = Some \<lparr>err_code = BAD_REQUEST, err_message = ''Expected array in request body'',
                      err_cause = None\<rparr>
            \<and> hr_invoked (openApiHttpHandler e opts req next) = None
            \<and> (\<exists>res body. hr_outcome (openApiHttpHandler e opts req next) = Sent res
                   \<and> res_body res = ErrorBody body \<and> er_code body = BAD_REQUEST))
       \<and> (isArray v \<longrightarrow>
            (\<forall>p input. hr_invoked (openApiHttpHandler e opts req next) = Some (p, input)
                \<longrightarrow> p = d_path procedure \<and> input = v)
            \<and> (\<forall>ctx procedureFn.
                  handler_context opts req = Inr ctx
                  \<and> router_createCaller (opts_router opts) ctx (d_path procedure) = Some procedureFn
                  \<longrightarrow> hr_invoked (openApiHttpHandler e opts req next) = Some (d_path procedure, v)))"
proof (intro conjI impI allI)
  assume na: "\<not> isArray v"
  have r: "reconcileInput e opts req (handler_url req) (proc_input (d_procedure procedure)) pathInput
             = Inl (Thrown_TRPCError \<lparr>err_code = BAD_REQUEST,
                      err_message = ''Expected array in request body'', err_cause = None\<rparr>)"
    using assms(3,4) na by (simp add: reconcileInput_def)
  note eq = handler_reconcile_fails [OF assms(1,2) r]
  show "hr_error (openApiHttpHandler e opts req next)
              = Some \<lparr>err_code = BAD_REQUEST, err_message = ''Expected array in request body'',
                      err_cause = None\<rparr>"
    unfolding eq by (simp add: catch_clause_fields)
  show "hr_invoked (openApiHttpHandler e opts req next) = None"
    unfolding eq by (simp add: catch_clause_fields)
  show "\<exists>res body. hr_outcome (openApiHttpHandler e opts req next) = Sent res
                   \<and> res_body res = ErrorBody body \<and> er_code body = BAD_REQUEST"
    unfolding eq using catch_clause_fields(3) [of opts "normalizePath (env_paths e) pathname" "Some procedure" JUndefined None "Thrown_TRPCError \<lparr>err_code = BAD_REQUEST,
                      err_message = ''Expected array in request body'', err_cause = None\<rparr>"]
    by auto
next
  fix p input
  assume a: "isArray v" and i: "hr_invoked (openApiHttpHandler e opts req next) = Some (p, input)"
  from handler_invoked [OF assms(1,2) i]
  have p: "p = d_path procedure"
    and r: "reconcileInput e opts req (handler_url req) (proc_input (d_procedure procedure)) pathInput = Inr input"
    by simp_all
  show "p = d_path procedure" by (rule p)
  show "input = v" using r assms(3,4) a by (simp add: reconcileInput_def)
next
  fix ctx procedureFn
  assume a: "isArray v"
    and h: "handler_context opts req = Inr ctx
            \<and> router_createCaller (opts_router opts) ctx (d_path procedure) = Some procedureFn"
  have r: "reconcileInput e opts req (handler_url req) (proc_input (d_procedure procedure)) pathInput = Inr v"
    using assms(3,4) a by (simp add: reconcileInput_def)
  show "hr_invoked (openApiHttpHandler e opts req next) = Some (d_path procedure, v)"
    using handler_invokes [OF assms(1,2) r] h by blast
qed

theorem array_input_checked_and_unmerged_witness:
  "bodyOrQuery ex_env ex_opts ((ex_request ''POST'' ''/array'')\<lparr>req_raw := Some ''[1,2]''\<rparr>)
       (handler_url ((ex_request ''POST'' ''/array'')\<lparr>req_raw := Some ''[1,2]''\<rparr>))
     = Inr (JArray [JNumber 1, JNumber 2])
   \<and> hr_invoked (openApiHttpHandler ex_env ex_opts ((ex_request ''POST'' ''/array'')\<lparr>req_raw := Some ''[1,2]''\<rparr>) False)
       = Some (''getHelloArray'', JArray [JNumber 1, JNumber 2])
   \<and> bodyOrQuery ex_env ex_opts ((ex_request ''POST'' ''/array'')\<lparr>req_raw := Some ''{}''\<rparr>)
       (handler_url ((ex_request ''POST'' ''/array'')\<lparr>req_raw := Some ''{}''\<rparr>))
     = Inr (JObject [])
   \<and> hr_error (openApiHttpHandler ex_env ex_opts ((ex_request ''POST'' ''/array'')\<lparr>req_raw := Some ''{}''\<rparr>) False)
       = Some \<lparr>err_code = BAD_REQUEST, err_message = ''Expected array in request body'', err_cause = None\<rparr>
   \<and> hr_invoked (openApiHttpHandler ex_env ex_opts ((ex_request ''POST'' ''/array'')\<lparr>req_raw := Some ''{}''\<rparr>) False)
       = None"
proof -
  let ?req1 = "(ex_request ''POST'' ''/array'')\<lparr>req_raw := Some ''[1,2]''\<rparr>"
  let ?req2 = "(ex_request ''POST'' ''/array'')\<lparr>req_raw := Some ''{}''\<rparr>"
  let ?d = "ex_descriptor ''getHelloArray'' POST ''/array'' Query ZodArray"
  have url1: "URL_pathname ex_env (handler_url ?req1) = Some ''/array''" by code_simp
  have url2: "URL_pathname ex_env (handler_url ?req2) = Some ''/array''" by code_simp
  have found1: "handler_lookup ex_env ex_opts ?req1 ''/array'' = Some (?d, [])" by code_simp
  have found2: "handler_lookup ex_env ex_opts ?req2 ''/array'' = Some (?d, [])" by code_simp
  have kind: "proc_input (d_procedure ?d) = ZodArray" by (simp add: ex_descriptor_def ex_procedure_def)
  have read1: "bodyOrQuery ex_env ex_opts ?req1 (handler_url ?req1) = Inr (JArray [JNumber 1, JNumber 2])"
    by code_simp
  have read2: "bodyOrQuery ex_env ex_opts ?req2 (handler_url ?req2) = Inr (JObject [])"
    by code_simp
  have ctx: "handler_context ex_opts ?req1 = Inr JUndefined"
    by (simp add: handler_context_def ex_opts_def)
  obtain f where f: "router_createCaller (opts_router ex_opts) JUndefined (d_path ?d) = Some f"
    by (simp add: ex_opts_def ex_router_def)
  have arr: "isArray (JArray [JNumber 1, JNumber 2])" by simp
  have a: "hr_invoked (openApiHttpHandler ex_env ex_opts ?req1 False) = Some (d_path ?d, JArray [JNumber 1, JNumber 2])"
    using array_input_checked_and_unmerged [OF url1 found1 kind read1, of False, THEN conjunct2,
        THEN mp, OF arr, THEN conjunct2, THEN spec, of JUndefined, THEN spec, of f, THEN mp]
      ctx f by blast
  have b: "hr_error (openApiHttpHandler ex_env ex_opts ?req2 False)
       = Some \<lparr>err_code = BAD_REQUEST, err_message = ''Expected array in request body'', err_cause = None\<rparr>
     \<and> hr_invoked (openApiHttpHandler ex_env ex_opts ?req2 False) = None"
    using array_input_checked_and_unmerged [OF url2 found2 kind read2, of False, THEN conjunct1, THEN mp]
    by simp
  show ?thesis using a b read1 read2 by (simp add: ex_descriptor_def)
qed

section \<open>Requests that match no route\<close>

lemma method_string_not_HEAD: "method_string m \<noteq> ''HEAD''"
  by (cases m) simp_all

lemma registrations_HEAD: "registrations u procs ''HEAD'' = []"
  by (induction procs) (auto simp: registrations_def method_string_not_HEAD split: option.splits)

lemma handler_lookup_HEAD:
  "req_method req = ''HEAD'' \<Longrightarrow> handler_lookup e opts req pathname = None"
  by (simp add: handler_lookup_def getProcedure_first_match registrations_HEAD first_match_def)

text \<open>
  C10. Every HEAD request handled without a \<^verbatim>\<open>next\<close> callback, whatever its path (also
  a path that a GET route matches), is answered with status 204 and no body, and no
  procedure is called: no member of \<^verbatim>\<open>OpenApiMethod\<close> is HEAD, so no pattern is ever
  registered under that method.
\<close>

theorem head_request_never_dispatched:
  assumes "URL_pathname e (handler_url req) = Some pathname"
    and "req_method req = ''HEAD''"
  shows "openApiHttpHandler e opts req False
           = \<lparr>hr_outcome = Sent \<lparr>res_statusCode = 204,
                                   res_headers = [(''Content-Type'', ''application/json'')],
                                   res_body = NoBody\<rparr>,
              hr_invoked = None, hr_error = None, hr_meta = None\<rparr>
         \<and> registrations (env_paths e) (router_procedures (opts_router opts)) ''HEAD'' = []"
  using assms handler_not_found [of _ _ _ _ False, OF assms(1) handler_lookup_HEAD [OF assms(2)]]
  by (simp add: sendResponse_def registrations_HEAD)

text \<open>The example: the path of a registered GET route, requested with HEAD.\<close>

theorem head_request_never_dispatched_witness:
  "URL_pathname ex_env (handler_url (ex_request ''HEAD'' ''/users/p'')) = Some ''/users/p''
   \<and> handler_lookup ex_env ex_opts (ex_request ''GET'' ''/users/p'') ''/users/p''
       = Some (ex_descriptor ''getUser'' GET ''/users/:id'' Query ZodObject, [(''id'', JString ''p'')])
   \<and> openApiHttpHandler ex_env ex_opts (ex_request ''HEAD'' ''/users/p'') False
       = \<lparr>hr_outcome = Sent \<lparr>res_statusCode = 204,
                               res_headers = [(''Content-Type'', ''application/json'')],
                               res_body = NoBody\<rparr>,
          hr_invoked = None, hr_error = None, hr_meta = None\<rparr>"
proof -
  have url: "URL_pathname ex_env (handler_url (ex_request ''HEAD'' ''/users/p'')) = Some ''/users/p''"
    by code_simp
  have m: "req_method (ex_request ''HEAD'' ''/users/p'') = ''HEAD''"
    by (simp add: ex_request_def)
  have get: "handler_lookup ex_env ex_opts (ex_request ''GET'' ''/users/p'') ''/users/p''
       = Some (ex_descriptor ''getUser'' GET ''/users/:id'' Query ZodObject, [(''id'', JString ''p'')])"
    by code_simp
  show ?thesis
    using head_request_never_dispatched [OF url m, of ex_opts, THEN conjunct1] url get by simp
qed

text \<open>
  C8. For a request that matches no registered pattern, handled without a
  \<^verbatim>\<open>next\<close> callback: a HEAD request is answered with status 204 and no body, and is
  no error; every other request fails with NOT_FOUND and no procedure is called. The
  status of that failure is the one \<^verbatim>\<open>responseMeta\<close> gives when it gives one, and
  404 otherwise.
\<close>

theorem unmatched_request:
  assumes "URL_pathname e (handler_url req) = Some pathname"
    and "handler_lookup e opts req pathname = None"
  shows "(req_method req = ''HEAD'' \<longrightarrow>
            openApiHttpHandler e opts req False
              = \<lparr>hr_outcome = Sent \<lparr>res_statusCode = 204,
                                      res_headers = [(''Content-Type'', ''application/json'')],
                                      res_body = NoBody\<rparr>,
                 hr_invoked = None, hr_error = None, hr_meta = None\<rparr>)
       \<and> (req_method req \<noteq> ''HEAD'' \<longrightarrow>
            hr_invoked (openApiHttpHandler e opts req False) = None
            \<and> hr_error (openApiHttpHandler e opts req False)
                = Some \<lparr>err_code = NOT_FOUND, err_message = ''Not found'', err_cause = None\<rparr>
            \<and> (\<exists>res body.
                  hr_outcome (openApiHttpHandler e opts req False) = Sent res
                  \<and> res_body res = ErrorBody body
                  \<and> er_code body = NOT_FOUND
                  \<and> er_issues body = JUndefined
                  \<and> res_statusCode res
                      = (case Option.bind (hr_meta (openApiHttpHandler e opts req False)) meta_status of
                           Some s \<Rightarrow> s
                         | None \<Rightarrow> 404)))"
proof (intro conjI impI)
  assume "req_method req = ''HEAD''"
  then show "openApiHttpHandler e opts req False
              = \<lparr>hr_outcome = Sent \<lparr>res_statusCode = 204,
                                      res_headers = [(''Content-Type'', ''application/json'')],
                                      res_body = NoBody\<rparr>,
                 hr_invoked = None, hr_error = None, hr_meta = None\<rparr>"
    using handler_not_found [OF assms, of False] by (simp add: sendResponse_def)
next
  let ?cause = "Thrown_TRPCError \<lparr>err_code = NOT_FOUND, err_message = ''Not found'', err_cause = None\<rparr>"
  assume "req_method req \<noteq> ''HEAD''"
  then have eq: "openApiHttpHandler e opts req False
      = catch_clause opts (normalizePath (env_paths e) pathname) None JUndefined None ?cause"
    using handler_not_found [OF assms, of False] by simp
  show "hr_invoked (openApiHttpHandler e opts req False) = None"
    unfolding eq by (simp add: catch_clause_fields)
  show "hr_error (openApiHttpHandler e opts req False)
          = Some \<lparr>err_code = NOT_FOUND, err_message = ''Not found'', err_cause = None\<rparr>"
    unfolding eq by (simp add: catch_clause_fields)
  show "\<exists>res body.
          hr_outcome (openApiHttpHandler e opts req False) = Sent res
          \<and> res_body res = ErrorBody body
          \<and> er_code body = NOT_FOUND
          \<and> er_issues body = JUndefined
          \<and> res_statusCode res
              = (case Option.bind (hr_meta (openApiHttpHandler e opts req False)) meta_status of
                   Some s \<Rightarrow> s
                 | None \<Rightarrow> 404)"
    unfolding eq
    using catch_clause_fields(3) [of opts "normalizePath (env_paths e) pathname" None JUndefined None ?cause]
    by (auto simp: error_statusCode_def getHTTPStatusCodeFromError_def isInputValidationError_def
          split: option.splits)
qed

text \<open>The examples: a GET and a HEAD request for a path no template matches.\<close>

theorem unmatched_request_witness:
  "URL_pathname ex_env (handler_url (ex_request ''GET'' ''/nothing'')) = Some ''/nothing''
   \<and> handler_lookup ex_env ex_opts (ex_request ''GET'' ''/nothing'') ''/nothing'' = None
   \<and> hr_error (openApiHttpHandler ex_env ex_opts (ex_request ''GET'' ''/nothing'') False)
       = Some \<lparr>err_code = NOT_FOUND, err_message = ''Not found'', err_cause = None\<rparr>
   \<and> hr_invoked (openApiHttpHandler ex_env ex_opts (ex_request ''GET'' ''/nothing'') False) = None
   \<and> URL_pathname ex_env (handler_url (ex_request ''HEAD'' ''/nothing'')) = Some ''/nothing''
   \<and> handler_lookup ex_env ex_opts (ex_request ''HEAD'' ''/nothing'') ''/nothing'' = None
   \<and> hr_outcome (openApiHttpHandler ex_env ex_opts (ex_request ''HEAD'' ''/nothing'') False)
       = Sent \<lparr>res_statusCode = 204, res_headers = [(''Content-Type'', ''application/json'')],
               res_body = NoBody\<rparr>"
proof -
  have url: "URL_pathname ex_env (handler_url (ex_request ''GET'' ''/nothing'')) = Some ''/nothing''"
    by code_simp
  have none: "handler_lookup ex_env ex_opts (ex_request ''GET'' ''/nothing'') ''/nothing'' = None"
    by code_simp
  have m: "req_method (ex_request ''GET'' ''/nothing'') \<noteq> ''HEAD''"
    by (simp add: ex_request_def)
  have url': "URL_pathname ex_env (handler_url (ex_request ''HEAD'' ''/nothing'')) = Some ''/nothing''"
    by code_simp
  have none': "handler_lookup ex_env ex_opts (ex_request ''HEAD'' ''/nothing'') ''/nothing'' = None"
    by code_simp
  have m': "req_method (ex_request ''HEAD'' ''/nothing'') = ''HEAD''"
    by (simp add: ex_request_def)
  have a: "hr_error (openApiHttpHandler ex_env ex_opts (ex_request ''GET'' ''/nothing'') False)
       = Some \<lparr>err_code = NOT_FOUND, err_message = ''Not found'', err_cause = None\<rparr>
     \<and> hr_invoked (openApiHttpHandler ex_env ex_opts (ex_request ''GET'' ''/nothing'') False) = None"
    using unmatched_request [OF url none, THEN conjunct2, THEN mp, OF m] by simp
  have b: "hr_outcome (openApiHttpHandler ex_env ex_opts (ex_request ''HEAD'' ''/nothing'') False)
       = Sent \<lparr>res_statusCode = 204, res_headers = [(''Content-Type'', ''application/json'')],
               res_body = NoBody\<rparr>"
    using unmatched_request [OF url' none', THEN conjunct1, THEN mp, OF m'] by simp
  show ?thesis using url none a url' none' b by blast
qed

text \<open>With a \<^verbatim>\<open>responseMeta\<close> that gives the status 410, the same request is answered
  with NOT_FOUND and the status 410, not 404.\<close>

theorem unmatched_status_overridden:
  "handler_lookup ex_env (ex_opts\<lparr>opts_responseMeta := Some (ex_responseMeta 410)\<rparr>)
        (ex_request ''GET'' ''/nothing'') ''/nothing'' = None
   \<and> openApiHttpHandler ex_env (ex_opts\<lparr>opts_responseMeta := Some (ex_responseMeta 410)\<rparr>)
        (ex_request ''GET'' ''/nothing'') False
       = \<lparr>hr_outcome =
            Sent \<lparr>res_statusCode = 410,
                  res_headers = [(''Content-Type'', ''application/json'')],
                  res_body = ErrorBody \<lparr>er_message = ''Not found'', er_code = NOT_FOUND,
                                         er_issues = JUndefined\<rparr>\<rparr>,
          hr_invoked = None,
          hr_error = Some \<lparr>err_code = NOT_FOUND, err_message = ''Not found'', err_cause = None\<rparr>,
          hr_meta = Some \<lparr>meta_status = Some 410, meta_headers = None\<rparr>\<rparr>"
  by code_simp

section \<open>Error responses\<close>

lemma catch_ex:
  assumes "hr_error (catch_clause opts path proc ctx invoked cause) = Some error"
  shows "\<exists>proc' ctx' invoked' cause'.
           catch_clause opts path proc ctx invoked cause = catch_clause opts path proc' ctx' invoked' cause'
         \<and> error = getErrorFromUnknown cause'"
proof -
  have "error = getErrorFromUnknown cause" using assms by (simp add: catch_clause_fields)
  then show ?thesis by blast
qed

lemma handler_error_cases:
  assumes "hr_error (openApiHttpHandler e opts req nxt) = Some error"
  shows "\<exists>pathname proc ctx invoked cause.
           URL_pathname e (handler_url req) = Some pathname
         \<and> openApiHttpHandler e opts req nxt
             = catch_clause opts (normalizePath (env_paths e) pathname) proc ctx invoked cause
         \<and> error = getErrorFromUnknown cause"
proof (cases "URL_pathname e (handler_url req)")
  case None
  then show ?thesis using assms by (simp add: openApiHttpHandler_def Let_def)
next
  case (Some pathname)
  have "\<exists>proc ctx invoked cause.
           openApiHttpHandler e opts req nxt
             = catch_clause opts (normalizePath (env_paths e) pathname) proc ctx invoked cause
         \<and> error = getErrorFromUnknown cause"
  proof (cases "handler_lookup e opts req pathname")
    case None
    show ?thesis
      using assms unfolding handler_not_found [OF Some None]
      by (auto split: if_splits intro!: catch_ex)
  next
    case found: (Some a)
    obtain procedure pathInput where a: "a = (procedure, pathInput)" by (cases a)
    show ?thesis
      using assms unfolding handler_found [OF Some found [unfolded a]]
      by (auto simp: Let_def split: sum.splits option.splits intro!: catch_ex)
  qed
  then show ?thesis using Some by blast
qed


lemma lambda_catch_clause_fields:
  "hr_invoked (lambda_catch_clause lopts path cause) = None"
  "hr_error (lambda_catch_clause lopts path cause) = Some (getErrorFromUnknown cause)"
  "\<exists>res body. hr_outcome (lambda_catch_clause lopts path cause) = Sent res
      \<and> res_body res = ErrorBody body
      \<and> res_statusCode res
          = (case Option.bind (hr_meta (lambda_catch_clause lopts path cause)) meta_status of
               Some s \<Rightarrow> s
             | None \<Rightarrow> TRPC_ERROR_CODE_HTTP_STATUS (err_code (getErrorFromUnknown cause)))
      \<and> er_code body = err_code (getErrorFromUnknown cause)
      \<and> er_message body =
           (case Option.bind (getErrorShape (l_router lopts) (getErrorFromUnknown cause) path) shape_message of
              Some m \<Rightarrow> m | None \<Rightarrow> err_message (getErrorFromUnknown cause))
      \<and> er_issues body = JUndefined"
  by (auto simp: lambda_catch_clause_def Let_def error_statusCode_def getHTTPStatusCodeFromError_def
           split: option.splits)



lemma lambda_unsupported:
  assumes "determinePayloadFormat event \<noteq> ''1.0''" and "determinePayloadFormat event \<noteq> ''2.0''"
  shows "createOpenApiAwsLambdaHandler e lopts event
     = lambda_catch_clause lopts None
         (Thrown_TRPCError
           \<lparr>err_code = INTERNAL_SERVER_ERROR,
            err_message = ''Unsupported payload format version: '' @ determinePayloadFormat event,
            err_cause = None\<rparr>)"
  using assms by (simp add: createOpenApiAwsLambdaHandler_def Let_def)






text \<open>
  C5. When the node-http handler ends with an error whose code is BAD_REQUEST, the
  response carries the code BAD_REQUEST and the status 400, unless \<^verbatim>\<open>responseMeta\<close>
  gives another status. When the cause of the error is an \<^verbatim>\<open>Error\<close> named ZodError,
  the message is exactly "Input validation failed" and the issues are the issues of that
  cause. When it is not, no issues are attached and the message is the message of the
  error shape, when the router's error formatter gives one, and the message of the error
  itself otherwise.
\<close>

theorem bad_request_envelope:
  assumes "URL_pathname e (handler_url req) = Some pathname"
    and "hr_error (openApiHttpHandler e opts req nxt) = Some error"
    and "err_code error = BAD_REQUEST"
  shows "\<exists>res body.
           hr_outcome (openApiHttpHandler e opts req nxt) = Sent res
         \<and> res_body res = ErrorBody body
         \<and> res_statusCode res
             = (case Option.bind (hr_meta (openApiHttpHandler e opts req nxt)) meta_status of
                  Some s \<Rightarrow> s
                | None \<Rightarrow> 400)
         \<and> er_code body = BAD_REQUEST
         \<and> (\<forall>c. err_cause error = Some c \<and> cause_instanceofError c \<and> cause_name c = ''ZodError''
               \<longrightarrow> er_message body = ''Input validation failed'' \<and> er_issues body = cause_errors c)
         \<and> ((\<forall>c. err_cause error = Some c
                  \<longrightarrow> \<not> (cause_instanceofError c \<and> cause_name c = ''ZodError''))
               \<longrightarrow> er_message body
                     = (case Option.bind
                              (getErrorShape (opts_router opts) error
                                 (Some (normalizePath (env_paths e) pathname)))
                              shape_message of
                          Some m \<Rightarrow> m
                        | None \<Rightarrow> err_message error)
                   \<and> er_issues body = JUndefined)"
proof -
  from handler_error_cases [OF assms(2)] assms(1) obtain proc ctx invoked cause
    where eq: "openApiHttpHandler e opts req nxt
             = catch_clause opts (normalizePath (env_paths e) pathname) proc ctx invoked cause"
      and err: "error = getErrorFromUnknown cause"
    by auto
  show ?thesis
    unfolding eq
    using catch_clause_fields(3) [of opts "normalizePath (env_paths e) pathname" proc ctx invoked cause]
      assms(3)
    unfolding err [symmetric]
    by (auto simp: isInputValidationError_def error_statusCode_def getHTTPStatusCodeFromError_def
             split: option.splits)
qed

text \<open>The examples: a POST without the required name, which the procedure rejects with a
  ZodError; and an object sent to a route whose input is an array, a BAD_REQUEST without
  a ZodError.\<close>

theorem bad_request_envelope_witness:
  "URL_pathname ex_env (handler_url ((ex_request ''POST'' ''/hello'')\<lparr>req_raw := Some ''{}''\<rparr>))
     = Some ''/hello''
   \<and> hr_error (openApiHttpHandler ex_env ex_opts ((ex_request ''POST'' ''/hello'')\<lparr>req_raw := Some ''{}''\<rparr>) False)
       = Some (getErrorFromUnknown zod_failure)
   \<and> (\<exists>res body.
         hr_outcome (openApiHttpHandler ex_env ex_opts ((ex_request ''POST'' ''/hello'')\<lparr>req_raw := Some ''{}''\<rparr>) False)
           = Sent res
       \<and> res_body res = ErrorBody body
       \<and> res_statusCode res = 400
       \<and> er_code body = BAD_REQUEST
       \<and> er_message body = ''Input validation failed''
       \<and> er_issues body
           = JArray [JObject [(''code'', JString ''invalid_type''),
                              (''expected'', JString ''string''),
                              (''message'', JString ''Required''),
                              (''path'', JArray [JString ''name'']),
                              (''received'', JString ''undefined'')]])
   \<and> URL_pathname ex_env (handler_url ((ex_request ''POST'' ''/array'')\<lparr>req_raw := Some ''{}''\<rparr>))
       = Some ''/array''
   \<and> hr_error (openApiHttpHandler ex_env ex_opts ((ex_request ''POST'' ''/array'')\<lparr>req_raw := Some ''{}''\<rparr>) False)
       = Some \<lparr>err_code = BAD_REQUEST, err_message = ''Expected array in request body'', err_cause = None\<rparr>
   \<and> (\<exists>res body.
         hr_outcome (openApiHttpHandler ex_env ex_opts ((ex_request ''POST'' ''/array'')\<lparr>req_raw := Some ''{}''\<rparr>) False)
           = Sent res
       \<and> res_body res = ErrorBody body
       \<and> res_statusCode res = 400
       \<and> er_code body = BAD_REQUEST
       \<and> er_message body = ''Expected array in request body''
       \<and> er_issues body = JUndefined)"
proof -
  let ?req = "(ex_request ''POST'' ''/hello'')\<lparr>req_raw := Some ''{}''\<rparr>"
  let ?r = "openApiHttpHandler ex_env ex_opts ?req False"
  let ?req2 = "(ex_request ''POST'' ''/array'')\<lparr>req_raw := Some ''{}''\<rparr>"
  let ?r2 = "openApiHttpHandler ex_env ex_opts ?req2 False"
  let ?e2 = "\<lparr>err_code = BAD_REQUEST, err_message = ''Expected array in request body'', err_cause = None\<rparr>"
  let ?c = "\<lparr>cause_instanceofError = True, cause_name = ''ZodError'',
             cause_errors =
               JArray [JObject [(''code'', JString ''invalid_type''),
                                (''expected'', JString ''string''),
                                (''message'', JString ''Required''),
                                (''path'', JArray [JString ''name'']),
                                (''received'', JString ''undefined'')]]\<rparr>"
  have url: "URL_pathname ex_env (handler_url ?req) = Some ''/hello''" by code_simp
  have err: "hr_error ?r = Some (getErrorFromUnknown zod_failure)" by code_simp
  have code: "err_code (getErrorFromUnknown zod_failure) = BAD_REQUEST"
    by (simp add: zod_failure_def)
  have cause: "err_cause (getErrorFromUnknown zod_failure) = Some ?c
      \<and> cause_instanceofError ?c \<and> cause_name ?c = ''ZodError''"
    by (simp add: zod_failure_def)
  have meta: "hr_meta ?r = None" by code_simp
  from bad_request_envelope [OF url err code] obtain res body
    where r: "hr_outcome ?r = Sent res" "res_body res = ErrorBody body"
      "res_statusCode res = (case Option.bind (hr_meta ?r) meta_status of Some s \<Rightarrow> s | None \<Rightarrow> 400)"
      "er_code body = BAD_REQUEST"
      "\<forall>c. err_cause (getErrorFromUnknown zod_failure) = Some c \<and> cause_instanceofError c
             \<and> cause_name c = ''ZodError''
           \<longrightarrow> er_message body = ''Input validation failed'' \<and> er_issues body = cause_errors c"
    by blast
  from r(5) [THEN spec, of ?c, THEN mp, OF cause]
  have "er_message body = ''Input validation failed''" and "er_issues body = cause_errors ?c"
    by simp_all
  then have a: "\<exists>res body. hr_outcome ?r = Sent res
       \<and> res_body res = ErrorBody body
       \<and> res_statusCode res = 400
       \<and> er_code body = BAD_REQUEST
       \<and> er_message body = ''Input validation failed''
       \<and> er_issues body
           = JArray [JObject [(''code'', JString ''invalid_type''),
                              (''expected'', JString ''string''),
                              (''message'', JString ''Required''),
                              (''path'', JArray [JString ''name'']),
                              (''received'', JString ''undefined'')]]"
    using r(1,2,3,4) meta by simp
  have url2: "URL_pathname ex_env (handler_url ?req2) = Some ''/array''" by code_simp
  have err2: "hr_error ?r2 = Some ?e2" by code_simp
  have code2: "err_code ?e2 = BAD_REQUEST" by simp
  have nocause: "\<forall>c. err_cause ?e2 = Some c \<longrightarrow> \<not> (cause_instanceofError c \<and> cause_name c = ''ZodError'')"
    by simp
  have meta2: "hr_meta ?r2 = None" by code_simp
  have shape: "Option.bind (getErrorShape (opts_router ex_opts) ?e2
                 (Some (normalizePath (env_paths ex_env) ''/array''))) shape_message
       = Some ''Expected array in request body''"
    by (simp add: getErrorShape_def ex_opts_def ex_router_def)
  from bad_request_envelope [OF url2 err2 code2] obtain res2 body2
    where r2: "hr_outcome ?r2 = Sent res2" "res_body res2 = ErrorBody body2"
      "res_statusCode res2 = (case Option.bind (hr_meta ?r2) meta_status of Some s \<Rightarrow> s | None \<Rightarrow> 400)"
      "er_code body2 = BAD_REQUEST"
      "(\<forall>c. err_cause ?e2 = Some c \<longrightarrow> \<not> (cause_instanceofError c \<and> cause_name c = ''ZodError''))
         \<longrightarrow> er_message body2
               = (case Option.bind (getErrorShape (opts_router ex_opts) ?e2
                                      (Some (normalizePath (env_paths ex_env) ''/array''))) shape_message of
                    Some m \<Rightarrow> m | None \<Rightarrow> err_message ?e2)
             \<and> er_issues body2 = JUndefined"
    by blast
  from r2(5) [THEN mp, OF nocause]
  have "er_message body2 = ''Expected array in request body''" and "er_issues body2 = JUndefined"
    unfolding shape by simp_all
  then have b: "\<exists>res body. hr_outcome ?r2 = Sent res
       \<and> res_body res = ErrorBody body
       \<and> res_statusCode res = 400
       \<and> er_code body = BAD_REQUEST
       \<and> er_message body = ''Expected array in request body''
       \<and> er_issues body = JUndefined"
    using r2(1,2,3,4) meta2 by simp
  show ?thesis using url err a url2 err2 b by blast
qed

text \<open>With a \<^verbatim>\<open>responseMeta\<close> that gives the status 422, the same validation failure
  is answered with the status 422, not 400. With an error formatter that replaces the
  message, the BAD_REQUEST without a ZodError is answered with the message of the
  formatter, not the one of the error.\<close>

theorem validation_status_overridden:
  "openApiHttpHandler ex_env (ex_opts\<lparr>opts_responseMeta := Some (ex_responseMeta 422)\<rparr>)
     ((ex_request ''POST'' ''/hello'')\<lparr>req_raw := Some ''{}''\<rparr>) False
   = \<lparr>hr_outcome =
        Sent \<lparr>res_statusCode = 422,
              res_headers = [(''Content-Type'', ''application/json'')],
              res_body =
                ErrorBody
                  \<lparr>er_message = ''Input validation failed'', er_code = BAD_REQUEST,
                   er_issues =
                     JArray [JObject [(''code'', JString ''invalid_type''),
                                      (''expected'', JString ''string''),
                                      (''message'', JString ''Required''),
                                      (''path'', JArray [JString ''name'']),
                                      (''received'', JString ''undefined'')]]\<rparr>\<rparr>,
      hr_invoked = Some (''postHello'', JObject []),
      hr_error = Some (getErrorFromUnknown zod_failure),
      hr_meta = Some \<lparr>meta_status = Some 422, meta_headers = None\<rparr>\<rparr>
   \<and> openApiHttpHandler ex_env (ex_opts\<lparr>opts_router := ex_formatting_router\<rparr>)
       ((ex_request ''POST'' ''/array'')\<lparr>req_raw := Some ''{}''\<rparr>) False
     = \<lparr>hr_outcome =
          Sent \<lparr>res_statusCode = 400,
                res_headers = [(''Content-Type'', ''application/json'')],
                res_body =
                  ErrorBody
                    \<lparr>er_message = ''Something went wrong'', er_code = BAD_REQUEST,
                     er_issues = JUndefined\<rparr>\<rparr>,
        hr_invoked = None,
        hr_error = Some \<lparr>err_code = BAD_REQUEST, err_message = ''Expected array in request body'',
                         err_cause = None\<rparr>,
        hr_meta = None\<rparr>"
  by code_simp

section \<open>Gateway events\<close>

lemma lambda_catch_clause_procedures:
  "lambda_catch_clause (opts\<lparr>l_router := (l_router opts)\<lparr>router_procedures := procedures\<rparr>\<rparr>) path cause
     = lambda_catch_clause opts path cause"
  by (simp add: lambda_catch_clause_def getErrorShape_def)

text \<open>
  C4. An event without a version has payload format "1.0", an event with one has that
  version. When the format is neither "1.0" nor "2.0", the Lambda handler fails with
  INTERNAL_SERVER_ERROR and the message "Unsupported payload format version: " followed
  by the version; no procedure is called, and the result is the same for every router
  table and every path utility, so that no route is looked up. The response carries the
  code INTERNAL_SERVER_ERROR (never NOT_FOUND), no issues, the message of the error
  (unless the router's error formatter gives another) and the status 500 (unless
  \<^verbatim>\<open>responseMeta\<close> gives another).
\<close>

theorem unsupported_payload_version:
  "(ev_version event = None \<longrightarrow> determinePayloadFormat event = ''1.0'')
   \<and> (\<forall>version. ev_version event = Some version \<longrightarrow> determinePayloadFormat event = version)
   \<and> (determinePayloadFormat event \<noteq> ''1.0'' \<and> determinePayloadFormat event \<noteq> ''2.0'' \<longrightarrow>
        hr_invoked (createOpenApiAwsLambdaHandler e opts event) = None
        \<and> hr_error (createOpenApiAwsLambdaHandler e opts event)
            = Some \<lparr>err_code = INTERNAL_SERVER_ERROR,
                    err_message = ''Unsupported payload format version: '' @ determinePayloadFormat event,
                    err_cause = None\<rparr>
        \<and> (\<exists>res body.
              hr_outcome (createOpenApiAwsLambdaHandler e opts event) = Sent res
              \<and> res_body res = ErrorBody body
              \<and> er_code body = INTERNAL_SERVER_ERROR
              \<and> er_issues body = JUndefined
              \<and> er_message body
                  = (case Option.bind
                           (getErrorShape (l_router opts)
                              \<lparr>err_code = INTERNAL_SERVER_ERROR,
                               err_message = ''Unsupported payload format version: ''
                                               @ determinePayloadFormat event,
                               err_cause = None\<rparr> None)
                           shape_message of
                       Some m \<Rightarrow> m
                     | None \<Rightarrow> ''Unsupported payload format version: '' @ determinePayloadFormat event)
              \<and> res_statusCode res
                  = (case Option.bind (hr_meta (createOpenApiAwsLambdaHandler e opts event)) meta_status of
                       Some s \<Rightarrow> s
                     | None \<Rightarrow> 500))
        \<and> (\<forall>e' procedures.
              createOpenApiAwsLambdaHandler e'
                  (opts\<lparr>l_router := (l_router opts)\<lparr>router_procedures := procedures\<rparr>\<rparr>) event
                = createOpenApiAwsLambdaHandler e opts event))"
proof (intro conjI impI allI)
  assume "ev_version event = None"
  then show "determinePayloadFormat event = ''1.0''" by (simp add: determinePayloadFormat_def)
next
  fix version
  assume "ev_version event = Some version"
  then show "determinePayloadFormat event = version" by (simp add: determinePayloadFormat_def)
next
  let ?cause = "Thrown_TRPCError
           \<lparr>err_code = INTERNAL_SERVER_ERROR,
            err_message = ''Unsupported payload format version: '' @ determinePayloadFormat event,
            err_cause = None\<rparr>"
  assume u: "determinePayloadFormat event \<noteq> ''1.0'' \<and> determinePayloadFormat event \<noteq> ''2.0''"
  then have eq: "createOpenApiAwsLambdaHandler e' lopts event = lambda_catch_clause lopts None ?cause"
    for e' lopts
    by (simp add: lambda_unsupported)
  show "hr_invoked (createOpenApiAwsLambdaHandler e opts event) = None"
    unfolding eq by (simp add: lambda_catch_clause_fields)
  show "hr_error (createOpenApiAwsLambdaHandler e opts event)
            = Some \<lparr>err_code = INTERNAL_SERVER_ERROR,
                    err_message = ''Unsupported payload format version: '' @ determinePayloadFormat event,
                    err_cause = None\<rparr>"
    unfolding eq by (simp add: lambda_catch_clause_fields)
  show "\<exists>res body.
              hr_outcome (createOpenApiAwsLambdaHandler e opts event) = Sent res
              \<and> res_body res = ErrorBody body
              \<and> er_code body = INTERNAL_SERVER_ERROR
              \<and> er_issues body = JUndefined
              \<and> er_message body
                  = (case Option.bind
                           (getErrorShape (l_router opts)
                              \<lparr>err_code = INTERNAL_SERVER_ERROR,
                               err_message = ''Unsupported payload format version: ''
                                               @ determinePayloadFormat event,
                               err_cause = None\<rparr> None)
                           shape_message of
                       Some m \<Rightarrow> m
                     | None \<Rightarrow> ''Unsupported payload format version: '' @ determinePayloadFormat event)
              \<and> res_statusCode res
                  = (case Option.bind (hr_meta (createOpenApiAwsLambdaHandler e opts event)) meta_status of
                       Some s \<Rightarrow> s
                     | None \<Rightarrow> 500)"
  proof -
    from lambda_catch_clause_fields(3) [of opts None ?cause] obtain res body
      where r: "hr_outcome (lambda_catch_clause opts None ?cause) = Sent res"
        "res_body res = ErrorBody body"
        "res_statusCode res
          = (case Option.bind (hr_meta (lambda_catch_clause opts None ?cause)) meta_status of
               Some s \<Rightarrow> s
             | None \<Rightarrow> TRPC_ERROR_CODE_HTTP_STATUS (err_code (getErrorFromUnknown ?cause)))"
        "er_code body = err_code (getErrorFromUnknown ?cause)"
        "er_message body =
           (case Option.bind (getErrorShape (l_router opts) (getErrorFromUnknown ?cause) None) shape_message of
              Some m \<Rightarrow> m | None \<Rightarrow> err_message (getErrorFromUnknown ?cause))"
        "er_issues body = JUndefined"
      by blast
    show ?thesis
      unfolding eq
      by (rule exI [of _ res], rule exI [of _ body]) (use r in \<open>simp cong: option.case_cong\<close>)
  qed
  fix e' procedures
  show "createOpenApiAwsLambdaHandler e'
                  (opts\<lparr>l_router := (l_router opts)\<lparr>router_procedures := procedures\<rparr>\<rparr>) event
                = createOpenApiAwsLambdaHandler e opts event"
    unfolding eq by (rule lambda_catch_clause_procedures)
qed

text \<open>The examples: an event without a version, of format 1.0, and the same event with
  the version "asdf".\<close>

theorem unsupported_payload_version_witness:
  "determinePayloadFormat (ex_event ''GET'' ''/users/p'' []) = ''1.0''
   \<and> determinePayloadFormat ((ex_event ''GET'' ''/users/p'' [])\<lparr>ev_version := Some ''asdf''\<rparr>) = ''asdf''
   \<and> hr_invoked (createOpenApiAwsLambdaHandler ex_env ex_lambda_opts
         ((ex_event ''GET'' ''/users/p'' [])\<lparr>ev_version := Some ''asdf''\<rparr>)) = None
   \<and> hr_error (createOpenApiAwsLambdaHandler ex_env ex_lambda_opts
         ((ex_event ''GET'' ''/users/p'' [])\<lparr>ev_version := Some ''asdf''\<rparr>))
       = Some \<lparr>err_code = INTERNAL_SERVER_ERROR,
               err_message = ''Unsupported payload format version: asdf'', err_cause = None\<rparr>
   \<and> hr_outcome (createOpenApiAwsLambdaHandler ex_env ex_lambda_opts
         ((ex_event ''GET'' ''/users/p'' [])\<lparr>ev_version := Some ''asdf''\<rparr>))
       = Sent \<lparr>res_statusCode = 500, res_headers = [(''content-type'', ''application/json'')],
               res_body = ErrorBody \<lparr>er_message = ''Unsupported payload format version: asdf'',
                                      er_code = INTERNAL_SERVER_ERROR, er_issues = JUndefined\<rparr>\<rparr>"
proof -
  let ?plain = "ex_event ''GET'' ''/users/p'' []"
  let ?ev = "(ex_event ''GET'' ''/users/p'' [])\<lparr>ev_version := Some ''asdf''\<rparr>"
  have n: "ev_version ?plain = None" by (simp add: ex_event_def)
  have s: "ev_version ?ev = Some ''asdf''" by simp
  have v0: "determinePayloadFormat ?plain = ''1.0''"
    using unsupported_payload_version [of ?plain ex_env ex_lambda_opts, THEN conjunct1, THEN mp, OF n] .
  have v: "determinePayloadFormat ?ev = ''asdf''"
    using unsupported_payload_version [of ?ev ex_env ex_lambda_opts, THEN conjunct2, THEN conjunct1,
        THEN spec, of "''asdf''", THEN mp, OF s] .
  then have u: "determinePayloadFormat ?ev \<noteq> ''1.0'' \<and> determinePayloadFormat ?ev \<noteq> ''2.0''" by simp
  have out: "hr_outcome (createOpenApiAwsLambdaHandler ex_env ex_lambda_opts ?ev)
       = Sent \<lparr>res_statusCode = 500, res_headers = [(''content-type'', ''application/json'')],
               res_body = ErrorBody \<lparr>er_message = ''Unsupported payload format version: asdf'',
                                      er_code = INTERNAL_SERVER_ERROR, er_issues = JUndefined\<rparr>\<rparr>"
    by code_simp
  from unsupported_payload_version [of ?ev ex_env ex_lambda_opts, THEN conjunct2, THEN conjunct2, THEN mp, OF u]
  have "hr_invoked (createOpenApiAwsLambdaHandler ex_env ex_lambda_opts ?ev) = None"
    and "hr_error (createOpenApiAwsLambdaHandler ex_env ex_lambda_opts ?ev)
       = Some \<lparr>err_code = INTERNAL_SERVER_ERROR,
               err_message = ''Unsupported payload format version: '' @ determinePayloadFormat ?ev,
               err_cause = None\<rparr>"
    by blast+
  then show ?thesis using v0 v out by simp
qed

text \<open>With a \<^verbatim>\<open>responseMeta\<close> that gives the status 503, the same event is answered
  with the status 503, not 500; with an error formatter that replaces the message, with
  the message of the formatter.\<close>

theorem unsupported_version_status_overridden:
  "createOpenApiAwsLambdaHandler ex_env (ex_lambda_opts\<lparr>l_responseMeta := Some (ex_responseMeta 503)\<rparr>)
      ((ex_event ''GET'' ''/users/p'' [])\<lparr>ev_version := Some ''asdf''\<rparr>)
   = \<lparr>hr_outcome =
        Sent \<lparr>res_statusCode = 503, res_headers = [(''content-type'', ''application/json'')],
              res_body = ErrorBody \<lparr>er_message = ''Unsupported payload format version: asdf'',
                                     er_code = INTERNAL_SERVER_ERROR, er_issues = JUndefined\<rparr>\<rparr>,
      hr_invoked = None,
      hr_error = Some \<lparr>err_code = INTERNAL_SERVER_ERROR,
                       err_message = ''Unsupported payload format version: asdf'', err_cause = None\<rparr>,
      hr_meta = Some \<lparr>meta_status = Some 503, meta_headers = None\<rparr>\<rparr>
   \<and> createOpenApiAwsLambdaHandler ex_env (ex_lambda_opts\<lparr>l_router := ex_formatting_router\<rparr>)
      ((ex_event ''GET'' ''/users/p'' [])\<lparr>ev_version := Some ''asdf''\<rparr>)
     = \<lparr>hr_outcome =
          Sent \<lparr>res_statusCode = 500, res_headers = [(''content-type'', ''application/json'')],
                res_body = ErrorBody \<lparr>er_message = ''Something went wrong'',
                                       er_code = INTERNAL_SERVER_ERROR, er_issues = JUndefined\<rparr>\<rparr>,
        hr_invoked = None,
        hr_error = Some \<lparr>err_code = INTERNAL_SERVER_ERROR,
                         err_message = ''Unsupported payload format version: asdf'', err_cause = None\<rparr>,
        hr_meta = None\<rparr>"
  by code_simp





section \<open>The body size limit\<close>

















end
